theory Spec2Isabelle
  imports Complex_Main
begin

section \<open>Python values the fastener generator works with\<close>

text \<open>
  The module \<^verbatim>\<open>fastener.py\<close> computes with Python floats, strings, lists and
  dictionaries. Floats are idealised as real numbers throughout (the comparisons the
  code makes are then comparisons of the values it holds); a dictionary is an
  association list in insertion order, looked up with \<open>map_of\<close>; every \<^verbatim>\<open>raise\<close> is
  an \<open>Inl\<close> result carrying the exception.

  Every exception the module raises itself is a \<^verbatim>\<open>ValueError\<close> whose message is an
  f-string. A message is kept as the format it was built from, together with the values
  interpolated into it, one constructor for each format.
\<close>

type_synonym 'v dict = "(string \<times> 'v) list"

datatype message =
    SizeFormat "string list"
      \<comment> \<open>\<^verbatim>\<open>{size_parts} invalid, must be formatted as size-pitch or size-TPI\<close>\<close>
  | UnknownType string "string list"
      \<comment> \<open>\<^verbatim>\<open>{fastener_type} invalid, must be one of {self.types()}\<close>\<close>
  | UnknownHand string
      \<comment> \<open>\<^verbatim>\<open>{hand} invalid, must be one of 'left' or 'right'\<close>\<close>
  | UnknownSize string "string list"
      \<comment> \<open>\<^verbatim>\<open>{size} invalid, must be one of {self.sizes(self.fastener_type)}\<close>\<close>
  | ScrewTooShort real real
      \<comment> \<open>\<^verbatim>\<open>Screw length {self.length} is <= countersunk screw head {length_offset}\<close>\<close>
  | UnknownKey "string option" "string list"
      \<comment> \<open>\<^verbatim>\<open>{key} invalid, must be one of {list(hole_diameters.keys())}\<close>\<close>
  | NoClearanceData string
      \<comment> \<open>\<^verbatim>\<open>No clearance hole data for size {self.size}\<close>\<close>
  | InvalidCrossSize string "real dict"
      \<comment> \<open>\<^verbatim>\<open>{size} is an invalid cross size {widths}\<close>\<close>
  | InvalidHexalobularSize string
      \<comment> \<open>\<^verbatim>\<open>{size} is an invalid hexalobular size\<close>\<close>
  | NotAFloat string
      \<comment> \<open>raised by the builtin \<^verbatim>\<open>float\<close> on a string that is not a number\<close>
  | Unpack
      \<comment> \<open>raised by a tuple assignment whose right-hand side has the wrong length\<close>

datatype error =
    ValueError message
  | KeyError string
  | IndexError
  | TypeError
  | AttributeError string
  | ZeroDivisionError
  | GeometryError string

text \<open>Sequencing: the first exception raised is the result.\<close>

definition bind_err :: "error + 'a \<Rightarrow> ('a \<Rightarrow> error + 'b) \<Rightarrow> error + 'b" where
  "bind_err r f = (case r of Inl e \<Rightarrow> Inl e | Inr v \<Rightarrow> f v)"

text \<open>\<^verbatim>\<open>d[k] = v\<close> on a dictionary: an existing key keeps its place.\<close>

fun dict_set :: "('k \<times> 'v) list \<Rightarrow> 'k \<Rightarrow> 'v \<Rightarrow> ('k \<times> 'v) list" where
  "dict_set [] k v = [(k, v)]"
| "dict_set ((k', v') # d) k v = (if k' = k then (k, v) # d else (k', v') # dict_set d k v)"

text \<open>\<^verbatim>\<open>math.radians\<close>.\<close>

definition radians :: "real \<Rightarrow> real" where
  "radians d = d * pi / 180"

section \<open>Across-flats to across-corners\<close>

text \<open>
  \<^verbatim>\<open>def polygon_diagonal(width, num_sides=6): return width / cos(pi / num_sides)\<close>
\<close>

definition polygon_diagonal :: "real \<Rightarrow> int \<Rightarrow> real" where
  "polygon_diagonal width num_sides = width / cos (pi / real_of_int num_sides)"

section \<open>The two-dimensional sketches handed to the geometry kernel\<close>

text \<open>
  A \<^verbatim>\<open>cq.Workplane\<close> sketch is the current point and the straight edges drawn so far,
  in the local coordinates of the plane. \<^verbatim>\<open>moveTo\<close>, \<^verbatim>\<open>vLineTo\<close> and \<^verbatim>\<open>hLineTo\<close> move the
  current point, the last two drawing an edge; \<^verbatim>\<open>mirrorX\<close> and \<^verbatim>\<open>mirrorY\<close> add the
  reflection of every edge in the x axis and in the y axis.
\<close>

type_synonym point = "real \<times> real"
type_synonym edge = "point \<times> point"

record workplane =
  current :: point
  edges :: "edge list"

definition Workplane :: workplane where
  "Workplane = \<lparr>current = (0, 0), edges = []\<rparr>"

definition moveTo :: "real \<Rightarrow> real \<Rightarrow> workplane \<Rightarrow> workplane" where
  "moveTo x y w = w\<lparr>current := (x, y)\<rparr>"

definition lineTo :: "real \<Rightarrow> real \<Rightarrow> workplane \<Rightarrow> workplane" where
  "lineTo x y w = \<lparr>current = (x, y), edges = edges w @ [(current w, (x, y))]\<rparr>"

definition vLineTo :: "real \<Rightarrow> workplane \<Rightarrow> workplane" where
  "vLineTo y w = lineTo (fst (current w)) y w"

definition hLineTo :: "real \<Rightarrow> workplane \<Rightarrow> workplane" where
  "hLineTo x w = lineTo x (snd (current w)) w"

definition reflect_in_x_axis :: "point \<Rightarrow> point" where
  "reflect_in_x_axis p = (fst p, - snd p)"

definition reflect_in_y_axis :: "point \<Rightarrow> point" where
  "reflect_in_y_axis p = (- fst p, snd p)"

definition mirrorX :: "workplane \<Rightarrow> workplane" where
  "mirrorX w = w\<lparr>edges := edges w @ map (map_prod reflect_in_x_axis reflect_in_x_axis) (edges w)\<rparr>"

definition mirrorY :: "workplane \<Rightarrow> workplane" where
  "mirrorY w = w\<lparr>edges := edges w @ map (map_prod reflect_in_y_axis reflect_in_y_axis) (edges w)\<rparr>"

text \<open>The vertices of a sketch: the end points of its edges, each once.\<close>

definition vertices :: "workplane \<Rightarrow> point list" where
  "vertices w = remdups (concat (map (\<lambda>e. [fst e, snd e]) (edges w)))"

text \<open>
  \<^verbatim>\<open>cq.selectors.BoxSelector(p0, p1)\<close> keeps a vertex when each coordinate lies between
  the corners: the kernel tests \<^verbatim>\<open>(p.x < x0) ^ (p.x < x1)\<close> on every axis. A sketch on the
  XY plane has its vertices at height 0.
\<close>

definition xor_lt :: "real \<Rightarrow> real \<Rightarrow> real \<Rightarrow> bool" where
  "xor_lt c c0 c1 = ((c < c0) \<noteq> (c < c1))"

definition BoxSelector :: "real \<times> real \<times> real \<Rightarrow> real \<times> real \<times> real \<Rightarrow> point \<Rightarrow> bool" where
  "BoxSelector p0 p1 p =
     (case (p0, p1) of ((x0, y0, z0), (x1, y1, z1)) \<Rightarrow>
        xor_lt (fst p) x0 x1 \<and> xor_lt (snd p) y0 y1 \<and> xor_lt 0 z0 z1)"

text \<open>
  \<^verbatim>\<open>fillet2D(radius, vertices)\<close> is carried out by the kernel; the sketch records the
  request.
\<close>

record filleted =
  outline :: workplane
  fillet_radius :: real
  fillet_at :: "point list"

definition fillet2D :: "real \<Rightarrow> point list \<Rightarrow> workplane \<Rightarrow> filleted" where
  "fillet2D r vs w = \<lparr>outline = w, fillet_radius = r, fillet_at = vs\<rparr>"

section \<open>Cross recess\<close>

definition cross_widths :: "real dict" where
  "cross_widths = [(''PH0'', 19 / 10), (''PH1'', 31 / 10), (''PH2'', 53 / 10),
                   (''PH3'', 68 / 10), (''PH4'', 10)]"

definition cross_depths :: "real dict" where
  "cross_depths = [(''PH0'', 11 / 10), (''PH1'', 2), (''PH2'', 327 / 100),
                   (''PH3'', 353 / 100), (''PH4'', 588 / 100)]"

definition cross_plan :: "real \<Rightarrow> workplane" where
  "cross_plan m =
     mirrorY (mirrorX (hLineTo 0 (vLineTo (m / 2) (hLineTo (m / 12) (vLineTo (m / 12)
       (moveTo (m / 2) 0 Workplane))))))"

definition cross_recess :: "string \<Rightarrow> error + (filleted \<times> real)" where
  "cross_recess size_code =
     (case map_of cross_widths size_code of
        None \<Rightarrow> Inl (ValueError (InvalidCrossSize size_code cross_widths))
      | Some m \<Rightarrow>
          let recess = cross_plan m;
              vs = filter (BoxSelector (- m / 3, - m / 3, - m / 3) (m / 3, m / 3, m / 3))
                     (vertices recess)
          in (case map_of cross_depths size_code of
                None \<Rightarrow> Inl (KeyError size_code)
              | Some d \<Rightarrow> Inr (fillet2D (m / 3) vs recess, d)))"


definition cross_contour :: "real \<Rightarrow> edge list" where
  "cross_contour m =
     [((m / 2, 0), (m / 2, m / 12)), ((m / 2, m / 12), (m / 12, m / 12)),
      ((m / 12, m / 12), (m / 12, m / 2)), ((m / 12, m / 2), (0, m / 2))]"

section \<open>Strings\<close>

text \<open>
  \<^verbatim>\<open>str.strip()\<close> removes the white space at both ends, \<^verbatim>\<open>str.split(sep)\<close> cuts at
  every occurrence of a one-character separator and always returns at least one part.
  A character is one of the 256 code points below U+0100; the white space among them is
  the space, U+0009 to U+000D, U+001C to U+001F, U+0085 and U+00A0.
\<close>

definition whitespace :: "char \<Rightarrow> bool" where
  "whitespace c \<longleftrightarrow> c \<in> set [CHR '' '', CHR 0x09, CHR 0x0A, CHR 0x0B, CHR 0x0C, CHR 0x0D,
                              CHR 0x1C, CHR 0x1D, CHR 0x1E, CHR 0x1F, CHR 0x85, CHR 0xA0]"

definition py_strip :: "string \<Rightarrow> string" where
  "py_strip s = rev (dropWhile whitespace (rev (dropWhile whitespace s)))"

fun py_split :: "char \<Rightarrow> string \<Rightarrow> string list" where
  "py_split sep [] = [[]]"
| "py_split sep (c # cs) =
     (if c = sep then [] # py_split sep cs
      else (case py_split sep cs of [] \<Rightarrow> [[c]] | w # ws \<Rightarrow> (c # w) # ws))"

section \<open>Dimension tables\<close>

text \<open>
  A parameter file read by \<^verbatim>\<open>read_fastener_parameters_from_csv\<close> is a dictionary from a
  size to a row, and a row is a dictionary from a column heading \<^verbatim>\<open>type:dimension\<close> to a
  cell. The files themselves, the conversion of a cell's text (\<^verbatim>\<open>is_safe\<close>, \<^verbatim>\<open>eval\<close>,
  \<^verbatim>\<open>imperial_str_to_float\<close>) and the builtin \<^verbatim>\<open>float\<close> are outside the module: the
  tables are parameters whose cells are already converted, a number or the text that is
  not one (an empty cell is the empty text).

  The record \<open>externals\<close> gathers what the module takes from outside: the tables, the
  conversions, the text Python prints for a float (\<open>float_str\<close>), the names the
  assembly generates for children added without one (\<open>uuid\<close>, the \<open>n\<close>-th name handed
  out) and the order in which Python iterates over a set of objects (\<open>set_iteration\<close>).
\<close>

datatype cell = Num real | Str string

type_synonym fastener_table = "(string \<times> cell dict) list"

datatype screw_class =
    ButtonHeadScrew | ButtonHeadWithCollarScrew | CheeseHeadScrew | CounterSunkScrew
  | HexHeadScrew | HexHeadWithFlangeScrew | PanHeadScrew | PanHeadWithCollarScrew
  | RaisedCheeseHeadScrew | RaisedCounterSunkOvalHeadScrew | SetScrew | SocketHeadCapScrew

datatype nut_class = DomedCapNut | HexNut | HexNutWithFlange | UnchamferedHexagonNut | SquareNut

datatype washer_class = PlainWasher | ChamferedWasher | CheeseHeadWasher

record externals =
  screw_fastener_data :: "screw_class \<Rightarrow> fastener_table"
  nut_fastener_data :: "nut_class \<Rightarrow> fastener_table"
  washer_fastener_data :: "washer_class \<Rightarrow> fastener_table"
  clearance_hole_data :: "(string \<times> real dict) list"
  tap_hole_data :: "(string \<times> real dict) list"
  py_float :: "string \<Rightarrow> real option"
  imperial_str_to_float :: "string \<Rightarrow> error + real"
  float_str :: "real \<Rightarrow> string"
  uuid :: "nat \<Rightarrow> string"
  set_iteration :: "nat list \<Rightarrow> nat list"

definition float :: "externals \<Rightarrow> string \<Rightarrow> error + real" where
  "float X s = (case py_float X s of None \<Rightarrow> Inl (ValueError (NotAFloat s)) | Some v \<Rightarrow> Inr v)"

text \<open>Reading a dimension that is used as a number.\<close>

definition num :: "cell dict \<Rightarrow> string \<Rightarrow> error + real" where
  "num d k = (case map_of d k of
                None \<Rightarrow> Inl (KeyError k)
              | Some (Num v) \<Rightarrow> Inr v
              | Some (Str s) \<Rightarrow> Inl TypeError)"

text \<open>
  \<^verbatim>\<open>types\<close>: the set of the names before the colon in the headings of the first row.
\<close>

definition types :: "fastener_table \<Rightarrow> error + string list" where
  "types fastener_data =
     (case fastener_data of
        [] \<Rightarrow> Inl IndexError
      | (sz, row) # _ \<Rightarrow>
          Inr (remdups (map (\<lambda>p. case py_split CHR '':'' p of [] \<Rightarrow> [] | n # _ \<Rightarrow> n)
                 (map fst row))))"

text \<open>
  \<^verbatim>\<open>isolate_fastener_type\<close>: for each size the dimensions of the target type whose cell
  is not empty; a size without any is left out.
\<close>

fun isolate_row :: "string \<Rightarrow> cell dict \<Rightarrow> cell dict \<Rightarrow> error + cell dict" where
  "isolate_row target_fastener dimension_dict [] = Inr dimension_dict"
| "isolate_row target_fastener dimension_dict ((type_dimension, v) # parameters) =
     (case py_split CHR '':'' (py_strip type_dimension) of
        [fastener_name, dimension] \<Rightarrow>
          isolate_row target_fastener
            (if target_fastener = fastener_name \<and> v \<noteq> Str []
             then dict_set dimension_dict dimension v else dimension_dict)
            parameters
      | _ \<Rightarrow> Inl (ValueError Unpack))"

fun isolate_rows :: "string \<Rightarrow> fastener_table \<Rightarrow> fastener_table \<Rightarrow> error + fastener_table" where
  "isolate_rows target_fastener result [] = Inr result"
| "isolate_rows target_fastener result ((sz, parameters) # fastener_data) =
     (case isolate_row target_fastener [] parameters of
        Inl e \<Rightarrow> Inl e
      | Inr dimension_dict \<Rightarrow>
          isolate_rows target_fastener
            (if 0 < length dimension_dict then dict_set result sz dimension_dict else result)
            fastener_data)"

definition isolate_fastener_type :: "string \<Rightarrow> fastener_table \<Rightarrow> error + fastener_table" where
  "isolate_fastener_type target_fastener fastener_data = isolate_rows target_fastener [] fastener_data"

definition sizes :: "string \<Rightarrow> fastener_table \<Rightarrow> error + string list" where
  "sizes fastener_type fastener_data =
     bind_err (isolate_fastener_type fastener_type fastener_data) (\<lambda>t. Inr (map fst t))"

section \<open>Thread sizes\<close>

definition MM :: real where "MM = 1"
definition IN :: real where "IN = 254 / 10 * MM"

definition imperial_numbered_sizes :: "real dict" where
  "imperial_numbered_sizes =
     [(''#0000'', 210 / 10000 * IN), (''#000'', 340 / 10000 * IN), (''#00'', 470 / 10000 * IN),
      (''#0'', 600 / 10000 * IN), (''#1'', 730 / 10000 * IN), (''#2'', 860 / 10000 * IN),
      (''#3'', 990 / 10000 * IN), (''#4'', 1120 / 10000 * IN), (''#5'', 1250 / 10000 * IN),
      (''#6'', 1380 / 10000 * IN), (''#8'', 1640 / 10000 * IN), (''#10'', 1900 / 10000 * IN),
      (''#12'', 2160 / 10000 * IN)]"

definition decode_imperial_size :: "externals \<Rightarrow> string \<Rightarrow> error + real \<times> real" where
  "decode_imperial_size X sz =
     (case (sz, py_split CHR ''-'' sz) of
        (c # _, s0 # rest) \<Rightarrow>
          bind_err
            (if c = CHR ''#''
             then (case map_of imperial_numbered_sizes s0 of
                     None \<Rightarrow> Inl (KeyError s0) | Some d \<Rightarrow> Inr d)
             else imperial_str_to_float X s0)
            (\<lambda>major_diameter.
               case rest of
                 [] \<Rightarrow> Inl IndexError
               | s1 # _ \<Rightarrow>
                   bind_err (imperial_str_to_float X s1)
                     (\<lambda>tpi. if tpi / IN = 0 then Inl ZeroDivisionError
                            else Inr (major_diameter, IN / (tpi / IN))))
      | _ \<Rightarrow> Inl IndexError)"

text \<open>
  The start of \<^verbatim>\<open>Screw.__init__\<close> and of \<^verbatim>\<open>Nut.__init__\<close>, the same statements in both:
  the size is cut at the dash and the number of parts checked, the thread is decoded
  (\<open>decode_thread\<close>), the type is checked, then the hand (\<open>check_parameters\<close>); after that
  the dimensions of this size and type are looked up (\<open>lookup_dimensions\<close>, also the end
  of \<^verbatim>\<open>Washer.__init__\<close>).
\<close>

definition decode_thread ::
  "externals \<Rightarrow> string \<Rightarrow> string list \<Rightarrow> error + bool \<times> real \<times> real" where
  "decode_thread X sz size_parts =
     (case (sz, size_parts) of
        (c # _, [p0, p1]) \<Rightarrow>
          if c = CHR ''M''
          then bind_err (float X (drop 1 p0)) (\<lambda>d. bind_err (float X p1) (\<lambda>p. Inr (True, d, p)))
          else bind_err (decode_imperial_size X sz) (\<lambda>(d, p). Inr (False, d, p))
      | _ \<Rightarrow> Inl IndexError)"

definition check_parameters ::
  "externals \<Rightarrow> fastener_table \<Rightarrow> string \<Rightarrow> string \<Rightarrow> string \<Rightarrow> error + bool \<times> real \<times> real" where
  "check_parameters X fastener_data sz fastener_type hand =
     (let size_parts = py_split CHR ''-'' (py_strip sz) in
      if \<not> length size_parts = 2 then Inl (ValueError (SizeFormat size_parts))
      else
        bind_err (decode_thread X sz size_parts)
          (\<lambda>thread.
             bind_err (types fastener_data)
               (\<lambda>ts.
                  if fastener_type \<notin> set ts then Inl (ValueError (UnknownType fastener_type ts))
                  else if hand \<in> set [''left'', ''right''] then Inr thread
                  else Inl (ValueError (UnknownHand hand)))))"

definition lookup_dimensions :: "fastener_table \<Rightarrow> string \<Rightarrow> string \<Rightarrow> error + cell dict" where
  "lookup_dimensions fastener_data fastener_type sz =
     bind_err (isolate_fastener_type fastener_type fastener_data)
       (\<lambda>t. case map_of t sz of
              None \<Rightarrow> Inl (ValueError (UnknownSize sz (map fst t)))
            | Some data \<Rightarrow> Inr data)"

section \<open>Screws\<close>

record screw =
  screw_class :: screw_class
  screw_size :: string
  screw_is_metric :: bool
  screw_thread_diameter :: real
  screw_thread_pitch :: real
  screw_length :: real
  screw_fastener_type :: string
  screw_hand :: string
  screw_simple :: bool
  screw_data :: "cell dict"
  screw_socket_clearance :: real
  screw_max_thread_length :: real
  screw_thread_length :: real

text \<open>
  \<^verbatim>\<open>length_offset\<close> is 0 in \<^verbatim>\<open>Screw\<close>; \<^verbatim>\<open>CounterSunkScrew\<close> and
  \<^verbatim>\<open>RaisedCounterSunkOvalHeadScrew\<close> override it with the head height \<^verbatim>\<open>screw_data["k"]\<close>.
\<close>

definition length_offset :: "screw_class \<Rightarrow> cell dict \<Rightarrow> error + real" where
  "length_offset cls data =
     (if cls = CounterSunkScrew \<or> cls = RaisedCounterSunkOvalHeadScrew then num data ''k''
      else Inr 0)"

text \<open>
  \<^verbatim>\<open>Screw.__init__\<close>. What follows the length check (\<^verbatim>\<open>make_head\<close>, the thread and the
  shank, all of it work of the geometry kernel and of \<^verbatim>\<open>IsoThread\<close>) is the parameter
  \<open>build\<close>, which says whether the kernel raised.
\<close>

definition Screw_init ::
  "externals \<Rightarrow> (screw \<Rightarrow> error option) \<Rightarrow> screw_class \<Rightarrow> string \<Rightarrow> real \<Rightarrow> string \<Rightarrow> string
     \<Rightarrow> bool \<Rightarrow> real \<Rightarrow> error + screw" where
  "Screw_init X build cls sz len fastener_type hand simple socket_clearance =
     bind_err (check_parameters X (screw_fastener_data X cls) sz fastener_type hand)
       (\<lambda>(metric, diameter, pitch).
        bind_err (lookup_dimensions (screw_fastener_data X cls) fastener_type sz)
       (\<lambda>data.
        bind_err (length_offset cls data)
          (\<lambda>offset.
             if offset \<ge> len then Inl (ValueError (ScrewTooShort len offset))
             else
               let self = \<lparr>screw_class = cls, screw_size = sz, screw_is_metric = metric,
                     screw_thread_diameter = diameter,
                     screw_thread_pitch = pitch, screw_length = len,
                     screw_fastener_type = fastener_type, screw_hand = hand,
                     screw_simple = simple, screw_data = data,
                     screw_socket_clearance = socket_clearance,
                     screw_max_thread_length = len - offset,
                     screw_thread_length = len - offset\<rparr>
               in (case build self of Some e \<Rightarrow> Inl e | None \<Rightarrow> Inr self))))"

definition screw_class_name :: "screw_class \<Rightarrow> string" where
  "screw_class_name cls =
     (case cls of
        ButtonHeadScrew \<Rightarrow> ''ButtonHeadScrew''
      | ButtonHeadWithCollarScrew \<Rightarrow> ''ButtonHeadWithCollarScrew''
      | CheeseHeadScrew \<Rightarrow> ''CheeseHeadScrew''
      | CounterSunkScrew \<Rightarrow> ''CounterSunkScrew''
      | HexHeadScrew \<Rightarrow> ''HexHeadScrew''
      | HexHeadWithFlangeScrew \<Rightarrow> ''HexHeadWithFlangeScrew''
      | PanHeadScrew \<Rightarrow> ''PanHeadScrew''
      | PanHeadWithCollarScrew \<Rightarrow> ''PanHeadWithCollarScrew''
      | RaisedCheeseHeadScrew \<Rightarrow> ''RaisedCheeseHeadScrew''
      | RaisedCounterSunkOvalHeadScrew \<Rightarrow> ''RaisedCounterSunkOvalHeadScrew''
      | SetScrew \<Rightarrow> ''SetScrew''
      | SocketHeadCapScrew \<Rightarrow> ''SocketHeadCapScrew'')"

definition screw_info :: "externals \<Rightarrow> screw \<Rightarrow> string" where
  "screw_info X self =
     screw_class_name (screw_class self) @ ''('' @ screw_fastener_type self @ ''): ''
     @ screw_size self @ ''x'' @ float_str X (screw_length self)
     @ (if screw_hand self = ''left'' then '' left hand thread'' else '''')"

section \<open>Nuts\<close>

record nut =
  nut_class :: nut_class
  nut_size :: string
  nut_is_metric :: bool
  nut_thread_diameter :: real
  nut_thread_pitch :: real
  nut_fastener_type :: string
  nut_hand :: string
  nut_simple :: bool
  nut_socket_clearance :: real
  nut_data :: "cell dict"

definition Nut_init ::
  "externals \<Rightarrow> (nut \<Rightarrow> error option) \<Rightarrow> nut_class \<Rightarrow> string \<Rightarrow> string \<Rightarrow> string \<Rightarrow> bool
     \<Rightarrow> error + nut" where
  "Nut_init X build cls sz fastener_type hand simple =
     bind_err (check_parameters X (nut_fastener_data X cls) sz fastener_type hand)
       (\<lambda>(metric, diameter, pitch).
        bind_err (lookup_dimensions (nut_fastener_data X cls) fastener_type sz)
       (\<lambda>data.
          let self = \<lparr>nut_class = cls, nut_size = sz, nut_is_metric = metric,
                nut_thread_diameter = diameter, nut_thread_pitch = pitch,
                nut_fastener_type = fastener_type, nut_hand = hand, nut_simple = simple,
                nut_socket_clearance = 6 * MM, nut_data = data\<rparr>
          in (case build self of Some e \<Rightarrow> Inl e | None \<Rightarrow> Inr self)))"

definition nut_class_name :: "nut_class \<Rightarrow> string" where
  "nut_class_name cls =
     (case cls of
        DomedCapNut \<Rightarrow> ''DomedCapNut''
      | HexNut \<Rightarrow> ''HexNut''
      | HexNutWithFlange \<Rightarrow> ''HexNutWithFlange''
      | UnchamferedHexagonNut \<Rightarrow> ''UnchamferedHexagonNut''
      | SquareNut \<Rightarrow> ''SquareNut'')"

definition nut_info :: "nut \<Rightarrow> string" where
  "nut_info self =
     nut_class_name (nut_class self) @ ''('' @ nut_fastener_type self @ ''): '' @ nut_size self"

section \<open>Washers\<close>

record washer =
  washer_class :: washer_class
  washer_size :: string
  washer_is_metric :: bool
  washer_thread_diameter :: real
  washer_fastener_type :: string
  washer_data :: "cell dict"

text \<open>
  \<^verbatim>\<open>Washer.__init__\<close> takes a size without a pitch (\<^verbatim>\<open>"M6"\<close>) and a type, and no hand.
\<close>

definition Washer_init ::
  "externals \<Rightarrow> (washer \<Rightarrow> error option) \<Rightarrow> washer_class \<Rightarrow> string \<Rightarrow> string \<Rightarrow> error + washer" where
  "Washer_init X build cls sz fastener_type =
     (case sz of
        [] \<Rightarrow> Inl IndexError
      | c # _ \<Rightarrow>
          bind_err (if c = CHR ''M'' then float X (drop 1 sz) else imperial_str_to_float X sz)
            (\<lambda>d. bind_err (types (washer_fastener_data X cls))
               (\<lambda>ts.
                  if fastener_type \<notin> set ts then Inl (ValueError (UnknownType fastener_type ts))
                  else
                    bind_err (lookup_dimensions (washer_fastener_data X cls) fastener_type sz)
                      (\<lambda>data.
                         let self = \<lparr>washer_class = cls, washer_size = sz,
                               washer_is_metric = (c = CHR ''M''),
                               washer_thread_diameter = d,
                               washer_fastener_type = fastener_type, washer_data = data\<rparr>
                         in (case build self of Some e \<Rightarrow> Inl e | None \<Rightarrow> Inr self)))))"

definition washer_class_name :: "washer_class \<Rightarrow> string" where
  "washer_class_name cls =
     (case cls of
        PlainWasher \<Rightarrow> ''PlainWasher''
      | ChamferedWasher \<Rightarrow> ''ChamferedWasher''
      | CheeseHeadWasher \<Rightarrow> ''CheeseHeadWasher'')"

definition washer_info :: "washer \<Rightarrow> string" where
  "washer_info self =
     washer_class_name (washer_class self) @ ''('' @ washer_fastener_type self @ ''): ''
     @ washer_size self"

section \<open>Hexalobular recess\<close>

text \<open>
  The outline of the recess is made of circular arcs. \<^verbatim>\<open>radiusArc(endPoint, radius)\<close> draws
  the arc from the current point to the end point, the sign of the radius saying on which
  side it bulges; \<^verbatim>\<open>Vector.normalized()\<close> is refused by the kernel on the null vector.
\<close>

record arc =
  arc_from :: point
  arc_to :: point
  arc_radius :: real

type_synonym wire = "arc list"

definition radiusArc :: "point \<Rightarrow> real \<Rightarrow> point \<times> wire \<Rightarrow> point \<times> wire" where
  "radiusArc endPoint radius w =
     (endPoint, snd w @ [\<lparr>arc_from = fst w, arc_to = endPoint, arc_radius = radius\<rparr>])"

definition vector_length :: "point \<Rightarrow> real" where
  "vector_length v = sqrt ((fst v)\<^sup>2 + (snd v)\<^sup>2)"

definition normalized :: "point \<Rightarrow> error + point" where
  "normalized v =
     (if vector_length v = 0 then Inl (GeometryError ''normalized'')
      else Inr (fst v / vector_length v, snd v / vector_length v))"

definition tangent_point :: "point \<Rightarrow> point \<Rightarrow> real \<Rightarrow> error + point" where
  "tangent_point center_external center_internal Re' =
     bind_err (normalized (fst center_internal - fst center_external,
                           snd center_internal - snd center_external))
       (\<lambda>u. Inr (fst center_external + fst u * Re', snd center_external + snd u * Re'))"

text \<open>
  \<^verbatim>\<open>hexalobular_recess\<close>. The table is the content of \<^verbatim>\<open>iso10664def.csv\<close>, a parameter.
  The result is the six copies of the one-sixth outline, each with the angle in degrees
  by which the kernel rotates it about the origin, and the depth.
\<close>

definition hexalobular_recess ::
  "fastener_table \<Rightarrow> string \<Rightarrow> error + ((int \<times> wire) list \<times> real)" where
  "hexalobular_recess iso10664def size_code =
     (case map_of iso10664def size_code of
        None \<Rightarrow> Inl (ValueError (InvalidHexalobularSize size_code))
      | Some data \<Rightarrow>
          bind_err (num data ''A'') (\<lambda>A.
          bind_err (num data ''B'') (\<lambda>B.
          bind_err (num data ''Re'') (\<lambda>Re'.
            let sqrt_3 = sqrt 3;
                divisor = 2 * (sqrt_3 * A - 2 * B - 2 * sqrt_3 * Re' + 4 * Re')
            in
              if divisor = 0 then Inl ZeroDivisionError
              else
                let Ri = (A\<^sup>2 - sqrt_3 * A * B - 4 * A * Re' + B\<^sup>2 + 2 * sqrt_3 * B * Re') / divisor;
                    center_external_arc =
                      [(0, A / 2 - Re'), (sqrt_3 * (A / 2 - Re') / 2, A / 4 - Re' / 2)];
                    center_internal_arc = (B / 4 + Ri / 2, sqrt_3 * (B / 2 + Ri) / 2)
                in
                  bind_err (tangent_point (center_external_arc ! 0) center_internal_arc Re') (\<lambda>t0.
                  bind_err (tangent_point (center_external_arc ! 1) center_internal_arc Re') (\<lambda>t1.
                    let one_sixth_plan =
                          snd (radiusArc (sqrt_3 * A / 4, A / 4) Re'
                                (radiusArc t1 (- Ri) (radiusArc t0 Re' ((0, A / 2), []))));
                        plan_wires = map (\<lambda>a. (a, one_sixth_plan)) [0, - 60, - 120, - 180, - 240, - 300]
                    in Inr (plan_wires, 6 / 10 * A)))))))"

section \<open>Profiles of countersink cutters and washers\<close>

text \<open>
  Profiles are sketches on the XZ plane: the second coordinate of a point is its height.
  \<^verbatim>\<open>rect(xLen, yLen, centered=False)\<close> draws a rectangle with a corner at the origin,
  \<^verbatim>\<open>polarLine(distance, angle)\<close> a line of the given length at the given angle in degrees,
  \<^verbatim>\<open>close()\<close> the line back to where the outline started.
\<close>

definition rect :: "real \<Rightarrow> real \<Rightarrow> workplane \<Rightarrow> workplane" where
  "rect xLen yLen w =
     w\<lparr>edges := edges w @ [((0, 0), (xLen, 0)), ((xLen, 0), (xLen, yLen)),
                             ((xLen, yLen), (0, yLen)), ((0, yLen), (0, 0))]\<rparr>"

definition polarLine :: "real \<Rightarrow> real \<Rightarrow> workplane \<Rightarrow> workplane" where
  "polarLine distance angle w =
     lineTo (fst (current w) + distance * cos (radians angle))
            (snd (current w) + distance * sin (radians angle)) w"

definition close :: "workplane \<Rightarrow> workplane" where
  "close w = (case edges w of [] \<Rightarrow> w | (p, q) # _ \<Rightarrow> lineTo (fst p) (snd p) w)"

text \<open>\<^verbatim>\<open>profile.vertices(">Z").val().Z\<close>: the height of the highest vertex.\<close>

definition top_Z :: "workplane \<Rightarrow> error + real" where
  "top_Z w = (case vertices w of [] \<Rightarrow> Inl IndexError | v # vs \<Rightarrow> Inr (fold max (map snd vs) (snd v)))"

text \<open>
  The property \<^verbatim>\<open>clearance_hole_diameters\<close> and the lookup of a fit or material in a table
  of hole diameters; the key may be \<^verbatim>\<open>None\<close>, which no table has.
\<close>

definition clearance_hole_diameters :: "externals \<Rightarrow> string \<Rightarrow> error + real dict" where
  "clearance_hole_diameters X sz =
     (case py_split CHR ''-'' sz of
        [] \<Rightarrow> Inl IndexError
      | s0 # _ \<Rightarrow>
          (case map_of (clearance_hole_data X) s0 of
             None \<Rightarrow> Inl (ValueError (NoClearanceData sz))
           | Some d \<Rightarrow> Inr d))"

definition lookup_key :: "real dict \<Rightarrow> string option \<Rightarrow> error + real" where
  "lookup_key hole_diameters key =
     (case (case key of None \<Rightarrow> None | Some k \<Rightarrow> map_of hole_diameters k) of
        None \<Rightarrow> Inl (ValueError (UnknownKey key (map fst hole_diameters)))
      | Some v \<Rightarrow> Inr v)"

definition clearance_hole_diameter :: "externals \<Rightarrow> string \<Rightarrow> string option \<Rightarrow> error + real" where
  "clearance_hole_diameter X sz fit =
     bind_err (clearance_hole_diameters X sz) (\<lambda>d. lookup_key d fit)"

text \<open>
  \<^verbatim>\<open>countersink_profile\<close> of each screw class. A set screw has none. A dimension that
  is text where a number is needed is reported when it is read.
\<close>

definition cone_profile :: "real \<Rightarrow> real \<Rightarrow> real \<Rightarrow> workplane" where
  "cone_profile a dk k =
     (let side_length = k / cos (radians (a / 2))
      in close (polarLine side_length (- 90 - a / 2) (hLineTo (dk / 2) (vLineTo k Workplane))))"

definition screw_countersink_profile ::
  "externals \<Rightarrow> screw \<Rightarrow> string option \<Rightarrow> error + workplane option" where
  "screw_countersink_profile X self fit =
     (let data = screw_data self in
      case screw_class self of
        SetScrew \<Rightarrow> Inr None
      | CounterSunkScrew \<Rightarrow>
          bind_err (num data ''a'') (\<lambda>a. bind_err (num data ''dk'') (\<lambda>dk.
          bind_err (num data ''k'') (\<lambda>k. Inr (Some (cone_profile a dk k)))))
      | RaisedCounterSunkOvalHeadScrew \<Rightarrow>
          bind_err (num data ''a'') (\<lambda>a. bind_err (num data ''k'') (\<lambda>k.
          bind_err (num data ''dk'') (\<lambda>dk. Inr (Some (cone_profile a dk k)))))
      | HexHeadScrew \<Rightarrow>
          bind_err (num data ''k'') (\<lambda>k. bind_err (num data ''s'') (\<lambda>s.
            let e = polygon_diagonal s 6;
                width = e + screw_socket_clearance self + e
            in Inr (Some (rect (width / 2) k Workplane))))
      | HexHeadWithFlangeScrew \<Rightarrow>
          bind_err (clearance_hole_diameter X (screw_size self) fit) (\<lambda>clearance_hole_diameter.
          bind_err (num data ''dc'') (\<lambda>dc. bind_err (num data ''s'') (\<lambda>s.
          bind_err (num data ''k'') (\<lambda>k.
            let shaft_clearance = clearance_hole_diameter - screw_thread_diameter self;
                width = max (dc + shaft_clearance)
                          (polygon_diagonal s 6 + screw_socket_clearance self)
            in Inr (Some (rect (width / 2) k Workplane))))))
      | ButtonHeadWithCollarScrew \<Rightarrow>
          bind_err (clearance_hole_diameter X (screw_size self) fit) (\<lambda>clearance_hole_diameter.
          bind_err (num data ''dc'') (\<lambda>dc. bind_err (num data ''k'') (\<lambda>k.
            let width = clearance_hole_diameter - screw_thread_diameter self + dc
            in Inr (Some (rect (width / 2) k Workplane)))))
      | _ \<Rightarrow>
          bind_err (clearance_hole_diameter X (screw_size self) fit) (\<lambda>clearance_hole_diameter.
          bind_err (num data ''dk'') (\<lambda>dk. bind_err (num data ''k'') (\<lambda>k.
            let width = clearance_hole_diameter - screw_thread_diameter self + dk
            in Inr (Some (rect (width / 2) k Workplane))))))"

definition nut_countersink_profile ::
  "externals \<Rightarrow> nut \<Rightarrow> string option \<Rightarrow> error + workplane option" where
  "nut_countersink_profile X self fit =
     (let data = nut_data self in
      case nut_class self of
        DomedCapNut \<Rightarrow>
          bind_err (num data ''dk'') (\<lambda>dk. bind_err (num data ''m'') (\<lambda>m.
          bind_err (num data ''s'') (\<lambda>s.
            let width = polygon_diagonal s 6 + nut_socket_clearance self
            in Inr (Some (rect (width / 2) (m + dk / 2) Workplane)))))
      | HexNutWithFlange \<Rightarrow>
          bind_err (clearance_hole_diameter X (nut_size self) fit) (\<lambda>clearance_hole_diameter.
          bind_err (num data ''dc'') (\<lambda>dc. bind_err (num data ''s'') (\<lambda>s.
          bind_err (num data ''m'') (\<lambda>m.
            let clearance = clearance_hole_diameter - nut_thread_diameter self;
                width = max (dc + clearance) (polygon_diagonal s 6 + nut_socket_clearance self)
            in Inr (Some (rect (width / 2) m Workplane))))))
      | SquareNut \<Rightarrow>
          bind_err (num data ''m'') (\<lambda>m. bind_err (num data ''s'') (\<lambda>s.
            let width = polygon_diagonal s 4 + nut_socket_clearance self
            in Inr (Some (rect (width / 2) m Workplane))))
      | _ \<Rightarrow>
          bind_err (num data ''m'') (\<lambda>m. bind_err (num data ''s'') (\<lambda>s.
            let width = polygon_diagonal s 6 + nut_socket_clearance self
            in Inr (Some (rect (width / 2) m Workplane)))))"

text \<open>
  \<^verbatim>\<open>washer_profile\<close> of each washer class, and \<^verbatim>\<open>washer_thickness\<close>, the height of the
  top of the washer's solid: the revolved profile is as high as the profile.
\<close>

definition washer_profile :: "washer \<Rightarrow> error + workplane" where
  "washer_profile self =
     (let data = washer_data self in
      bind_err (num data ''d1'') (\<lambda>d1. bind_err (num data ''d2'') (\<lambda>d2.
      bind_err (num data ''h'') (\<lambda>h.
        Inr (case washer_class self of
               PlainWasher \<Rightarrow>
                 close (hLineTo (d1 / 2) (vLineTo h (hLineTo (d2 / 2)
                   (moveTo (d1 / 2) 0 Workplane))))
             | ChamferedWasher \<Rightarrow>
                 close (hLineTo (d1 / 2) (lineTo (d2 / 2 - h * (25 / 100)) h
                   (vLineTo (75 / 100 * h) (hLineTo (d2 / 2) (moveTo (d1 / 2) 0 Workplane)))))
             | CheeseHeadWasher \<Rightarrow>
                 close (vLineTo (h / 4) (lineTo (d1 / 2) (75 / 100 * h)
                   (hLineTo (d1 / 2 + h / 4) (vLineTo h (hLineTo (d2 / 2)
                     (moveTo (d1 / 2 + h / 4) 0 Workplane)))))))))))"

definition washer_thickness :: "washer \<Rightarrow> error + real" where
  "washer_thickness self = bind_err (washer_profile self) top_Z"

section \<open>Instances and assemblies\<close>

text \<open>
  None of the classes defines \<^verbatim>\<open>__eq__\<close> or \<^verbatim>\<open>__hash__\<close>: two instances are equal when
  they are the same object. Objects therefore live in a store, and a value that the code
  passes around is a reference, the position of the object in the store. Constructing
  an instance allocates a new object.
\<close>

datatype py_object = AScrew screw | ANut nut | AWasher washer | Other

type_synonym ref = nat

definition deref :: "py_object list \<Rightarrow> ref \<Rightarrow> py_object" where
  "deref store r = (if r < length store then store ! r else Other)"

definition new :: "py_object list \<Rightarrow> error + py_object \<Rightarrow> (error + ref) \<times> py_object list" where
  "new store init =
     (case init of
        Inl e \<Rightarrow> (Inl e, store)
      | Inr obj \<Rightarrow> (Inr (length store), store @ [obj]))"

definition Screw ::
  "externals \<Rightarrow> (screw \<Rightarrow> error option) \<Rightarrow> py_object list \<Rightarrow> screw_class \<Rightarrow> string \<Rightarrow> real
     \<Rightarrow> string \<Rightarrow> string \<Rightarrow> bool \<Rightarrow> real \<Rightarrow> (error + ref) \<times> py_object list" where
  "Screw X build store cls sz len fastener_type hand simple socket_clearance =
     new store (map_sum id AScrew
       (Screw_init X build cls sz len fastener_type hand simple socket_clearance))"

definition Nut ::
  "externals \<Rightarrow> (nut \<Rightarrow> error option) \<Rightarrow> py_object list \<Rightarrow> nut_class \<Rightarrow> string \<Rightarrow> string
     \<Rightarrow> string \<Rightarrow> bool \<Rightarrow> (error + ref) \<times> py_object list" where
  "Nut X build store cls sz fastener_type hand simple =
     new store (map_sum id ANut (Nut_init X build cls sz fastener_type hand simple))"

definition Washer ::
  "externals \<Rightarrow> (washer \<Rightarrow> error option) \<Rightarrow> py_object list \<Rightarrow> washer_class \<Rightarrow> string \<Rightarrow> string
     \<Rightarrow> (error + ref) \<times> py_object list" where
  "Washer X build store cls sz fastener_type =
     new store (map_sum id AWasher (Washer_init X build cls sz fastener_type))"

text \<open>
  \<^verbatim>\<open>isinstance(value, (Screw, Nut, Washer))\<close>, the property \<^verbatim>\<open>info\<close>, and the methods the
  hole cutter calls on its \<^verbatim>\<open>fastener\<close> argument, a screw or a nut.
\<close>

definition is_fastener :: "py_object list \<Rightarrow> ref \<Rightarrow> bool" where
  "is_fastener store r = (case deref store r of Other \<Rightarrow> False | _ \<Rightarrow> True)"

definition info :: "externals \<Rightarrow> py_object list \<Rightarrow> ref \<Rightarrow> string" where
  "info X store r =
     (case deref store r of
        AScrew s \<Rightarrow> screw_info X s
      | ANut n \<Rightarrow> nut_info n
      | AWasher w \<Rightarrow> washer_info w
      | Other \<Rightarrow> [])"

definition countersink_profile ::
  "externals \<Rightarrow> py_object \<Rightarrow> string option \<Rightarrow> error + workplane option" where
  "countersink_profile X fastener fit =
     (case fastener of
        AScrew s \<Rightarrow> screw_countersink_profile X s fit
      | ANut n \<Rightarrow> nut_countersink_profile X n fit
      | _ \<Rightarrow> Inl (AttributeError ''countersink_profile''))"

definition fastener_length_offset :: "py_object \<Rightarrow> error + real" where
  "fastener_length_offset fastener =
     (case fastener of
        AScrew s \<Rightarrow> length_offset (screw_class s) (screw_data s)
      | ANut n \<Rightarrow> Inr 0
      | _ \<Rightarrow> Inl (AttributeError ''length_offset''))"

definition fastener_thread_diameter :: "py_object \<Rightarrow> error + real" where
  "fastener_thread_diameter fastener =
     (case fastener of
        AScrew s \<Rightarrow> Inr (screw_thread_diameter s)
      | ANut n \<Rightarrow> Inr (nut_thread_diameter n)
      | AWasher w \<Rightarrow> Inr (washer_thread_diameter w)
      | Other \<Rightarrow> Inl (AttributeError ''thread_diameter''))"

text \<open>
  An assembly: its children, each with the name generated for it, the instance whose
  solid it shows and where it is placed (the location of the hole and the distance moved
  along the bore), and the attribute \<^verbatim>\<open>metadata\<close>, which an assembly may lack, hold as
  \<^verbatim>\<open>None\<close>, or hold as a dictionary from the name of a child to an instance.
\<close>

type_synonym location = "real \<times> real \<times> real"

record placed =
  child_name :: string
  child_of :: ref
  child_hole :: location
  child_along_bore :: real

datatype attribute = Missing | PyNone | Dict "ref dict"

record assembly =
  children :: "placed list"
  metadata :: attribute

text \<open>The placement records of an assembly: the entries of its \<^verbatim>\<open>metadata\<close>, if it has any.\<close>

definition records :: "assembly \<Rightarrow> ref dict" where
  "records a = (case metadata a of Dict d \<Rightarrow> d | _ \<Rightarrow> [])"

definition washer_list :: "ref list option \<Rightarrow> ref list" where
  "washer_list washers = (case washers of None \<Rightarrow> [] | Some ws \<Rightarrow> ws)"

text \<open>
  One placement: \<^verbatim>\<open>baseAssembly.add(obj.cq_object, loc=...)\<close> followed by the entry of the
  new child's name in \<^verbatim>\<open>metadata\<close>, which is created when the attribute is missing. The
  counter says how many names have been generated so far.
\<close>

definition add_placement ::
  "externals \<Rightarrow> ref \<Rightarrow> location \<Rightarrow> real \<Rightarrow> assembly \<times> nat \<Rightarrow> error + assembly \<times> nat" where
  "add_placement X obj hole_loc along asm_n =
     (case asm_n of (baseAssembly, n) \<Rightarrow>
        let name = uuid X n;
            added = children baseAssembly
                      @ [\<lparr>child_name = name, child_of = obj, child_hole = hole_loc,
                           child_along_bore = along\<rparr>]
        in (case metadata baseAssembly of
              Missing \<Rightarrow> Inr (\<lparr>children = added, metadata = Dict [(name, obj)]\<rparr>, Suc n)
            | Dict d \<Rightarrow> Inr (\<lparr>children = added, metadata = Dict (dict_set d name obj)\<rparr>, Suc n)
            | PyNone \<Rightarrow> Inl TypeError))"

text \<open>The loop over the washers of one hole; it returns the thickness stacked so far.\<close>

fun place_washers ::
  "externals \<Rightarrow> py_object list \<Rightarrow> ref \<Rightarrow> real \<Rightarrow> location \<Rightarrow> ref list \<Rightarrow> real
     \<Rightarrow> assembly \<times> nat \<Rightarrow> error + real \<times> assembly \<times> nat" where
  "place_washers X store fastener head_offset hole_loc [] washer_thicknesses asm_n =
     Inr (washer_thicknesses, asm_n)"
| "place_washers X store fastener head_offset hole_loc (washer # washers) washer_thicknesses asm_n =
     (case deref store washer of
        AWasher w \<Rightarrow>
          bind_err (fastener_length_offset (deref store fastener)) (\<lambda>offset.
          bind_err (washer_thickness w) (\<lambda>thickness.
          bind_err (add_placement X washer hole_loc
                      (head_offset - offset - washer_thicknesses) asm_n) (\<lambda>asm_n'.
            place_washers X store fastener head_offset hole_loc washers
              (washer_thicknesses + thickness) asm_n')))
      | _ \<Rightarrow> Inl (AttributeError ''washer_thickness''))"

text \<open>The loop over the holes: the washers, then the fastener itself.\<close>

fun place_fasteners ::
  "externals \<Rightarrow> py_object list \<Rightarrow> ref \<Rightarrow> real \<Rightarrow> ref list option \<Rightarrow> location list
     \<Rightarrow> assembly \<times> nat \<Rightarrow> error + assembly \<times> nat" where
  "place_fasteners X store fastener head_offset washers [] asm_n = Inr asm_n"
| "place_fasteners X store fastener head_offset washers (hole_loc # hole_locations) asm_n =
     bind_err (place_washers X store fastener head_offset hole_loc (washer_list washers) 0 asm_n)
       (\<lambda>(washer_thicknesses, asm_n').
          bind_err (fastener_length_offset (deref store fastener)) (\<lambda>offset.
          bind_err (add_placement X fastener hole_loc
                      (head_offset - offset - washer_thicknesses) asm_n') (\<lambda>asm_n''.
            place_fasteners X store fastener head_offset washers hole_locations asm_n'')))"

section \<open>Cutting the holes\<close>

text \<open>
  The result of \<^verbatim>\<open>_fastenerHole\<close> is the host body after the kernel has cut one cutter at
  every location and, for a threaded hole that is not simple, fused one thread into each.
  The model returns what the kernel is asked to do, and the assembly as the call leaves
  it: the axial extent of the countersink, the profile revolved into the countersink
  cutter if there is one, the radius and depth of the bore, the height of the drill tip
  (a cone of apex angle 82 degrees), the locations, the length of the thread to insert,
  and whether the result is cleaned.
\<close>

record hole =
  head_offset :: real
  countersink_cutter :: "workplane option"
  hole_radius :: real
  hole_depth :: real
  drill_tip :: real
  hole_locations :: "location list"
  thread_insert :: "real option"
  cleaned :: bool
  base_assembly :: "assembly option"
  names_generated :: nat

text \<open>The countersink: only when asked for and when the fastener has a profile.\<close>

definition countersink ::
  "bool \<Rightarrow> workplane option \<Rightarrow> error + real \<times> workplane option" where
  "countersink counterSunk profile =
     (case profile of
        Some p \<Rightarrow>
          if counterSunk then bind_err (top_Z p) (\<lambda>z. Inr (z, Some p)) else Inr (0, None)
      | None \<Rightarrow> Inr (0, None))"

text \<open>The radius of the bore.\<close>

definition bore_radius ::
  "py_object \<Rightarrow> real dict \<Rightarrow> string option \<Rightarrow> string option \<Rightarrow> string option \<Rightarrow> error + real" where
  "bore_radius fastener hole_diameters fit material hand =
     (let threaded_hole = (hand \<noteq> None) in
      if threaded_hole
      then bind_err (fastener_thread_diameter fastener) (\<lambda>d. Inr (d / 2))
      else
        let key = (if material = None then fit else material)
        in bind_err (lookup_key hole_diameters key) (\<lambda>d. Inr (d / 2)))"

text \<open>The placements, made only when a base assembly is given.\<close>

definition place_in_assembly ::
  "externals \<Rightarrow> py_object list \<Rightarrow> ref \<Rightarrow> real \<Rightarrow> ref list option \<Rightarrow> location list
     \<Rightarrow> assembly option \<Rightarrow> nat \<Rightarrow> error + assembly option \<times> nat" where
  "place_in_assembly X store fastener offset washers locations baseAssembly n =
     (case baseAssembly of
        None \<Rightarrow> Inr (None, n)
      | Some a \<Rightarrow>
          bind_err (place_fasteners X store fastener offset washers locations (a, n))
            (\<lambda>(a', n'). Inr (Some a', n')))"

definition fastenerHole ::
  "externals \<Rightarrow> py_object list \<Rightarrow> nat \<Rightarrow> location list \<Rightarrow> real dict \<Rightarrow> ref \<Rightarrow> real
     \<Rightarrow> ref list option \<Rightarrow> string option \<Rightarrow> string option \<Rightarrow> bool \<Rightarrow> assembly option
     \<Rightarrow> string option \<Rightarrow> bool \<Rightarrow> bool \<Rightarrow> error + hole" where
  "fastenerHole X store n locations hole_diameters fastener depth washers fit material
       counterSunk baseAssembly hand simple clean =
     bind_err (countersink_profile X (deref store fastener) fit) (\<lambda>profile.
     bind_err (countersink counterSunk profile) (\<lambda>(offset, cutter).
     bind_err (bore_radius (deref store fastener) hole_diameters fit material hand) (\<lambda>radius.
       let cskAngle = 82;
           h = radius / tan (radians (cskAngle / 2))
       in
         bind_err
           (place_in_assembly X store fastener offset washers locations baseAssembly n)
           (\<lambda>(asm, n').
              Inr \<lparr>head_offset = offset, countersink_cutter = cutter, hole_radius = radius,
                   hole_depth = depth, drill_tip = h, hole_locations = locations,
                   thread_insert = (if hand \<noteq> None \<and> \<not> simple then Some (depth - offset) else None),
                   cleaned = clean, base_assembly = asm, names_generated = n'\<rparr>))))"

section \<open>Bill of materials\<close>

text \<open>
  \<^verbatim>\<open>_fastener_quantities\<close>. The keys of the result are \<^verbatim>\<open>info\<close> texts when \<^verbatim>\<open>bom\<close> is
  true and the instances themselves otherwise. \<^verbatim>\<open>set(fasteners)\<close> and
  \<^verbatim>\<open>fasteners.count(f)\<close> compare instances, that is references.
\<close>

datatype bom_key = Info string | Instance ref

definition fastener_quantities ::
  "externals \<Rightarrow> py_object list \<Rightarrow> bool \<Rightarrow> assembly \<Rightarrow> error + (bom_key \<times> nat) list option" where
  "fastener_quantities X store bom self =
     (case metadata self of
        Missing \<Rightarrow> Inl (AttributeError ''metadata'')
      | PyNone \<Rightarrow> Inr None
      | Dict d \<Rightarrow>
          let fasteners = filter (is_fastener store) (map snd d);
              unique_fasteners = set_iteration X fasteners
          in Inr (Some
               (fold (\<lambda>f quantities.
                        dict_set quantities (if bom then Info (info X store f) else Instance f)
                          (count_list fasteners f))
                  unique_fasteners [])))"

section \<open>A small catalogue for the examples\<close>

text \<open>
  One row for each of a few classes, with dimensions of the M6 size, the builtin
  \<^verbatim>\<open>float\<close> on the two numerals the size \<^verbatim>\<open>M6-1\<close> holds, names \<^verbatim>\<open>u\<close>, \<^verbatim>\<open>uu\<close>, ... for the
  children of an assembly, and sets iterated in the order of first occurrence.
\<close>

definition example_screws :: "screw_class \<Rightarrow> fastener_table" where
  "example_screws cls =
     (if cls = CounterSunkScrew
      then [(''M6-1'', [(''iso2009:a'', Num 90), (''iso2009:dk'', Num (113 / 10)),
                        (''iso2009:k'', Num (33 / 10))])]
      else if cls = SetScrew
      then [(''M6-1'', [(''iso4026:s'', Num 3), (''iso4026:t'', Num (35 / 10))])]
      else [(''M6-1'', [(''iso4014:k'', Num 4), (''iso4014:s'', Num 10)])])"

definition example_nuts :: "nut_class \<Rightarrow> fastener_table" where
  "example_nuts cls = [(''M6-1'', [(''iso4032:m'', Num (52 / 10)), (''iso4032:s'', Num 10)])]"

definition example_washers :: "washer_class \<Rightarrow> fastener_table" where
  "example_washers cls =
     [(''M6'', [(''iso7089:d1'', Num (64 / 10)), (''iso7089:d2'', Num 12),
                (''iso7089:h'', Num (16 / 10))])]"

definition example_externals :: externals where
  "example_externals =
     \<lparr>screw_fastener_data = example_screws,
      nut_fastener_data = example_nuts,
      washer_fastener_data = example_washers,
      clearance_hole_data =
        [(''M6'', [(''Close'', 64 / 10), (''Normal'', 66 / 10), (''Loose'', 7)])],
      tap_hole_data = [(''M6-1'', [(''Soft'', 5), (''Hard'', 5)])],
      py_float = map_of [(''6'', 6), (''1'', 1)],
      imperial_str_to_float = (\<lambda>s. Inl (ValueError (NotAFloat s))),
      float_str = (\<lambda>r. if r = 20 then ''20'' else ''?''),
      uuid = (\<lambda>n. replicate (Suc n) CHR ''u''),
      set_iteration = remdups\<rparr>"

definition built :: "'a \<Rightarrow> error option" where
  "built self = None"

text \<open>
  The objects of the examples: a set screw, a countersunk screw and a hexagon head screw
  of length 20, a second hexagon head screw constructed with the same arguments, a plain
  washer and a hexagon nut, in a store in this order; then the records the constructors
  return for them.
\<close>

definition example_store :: "py_object list" where
  "example_store =
     (let X = example_externals;
          (r0, s0) = Screw X built [] SetScrew ''M6-1'' 20 ''iso4026'' ''right'' True 6;
          (r1, s1) = Screw X built s0 CounterSunkScrew ''M6-1'' 20 ''iso2009'' ''right'' True 6;
          (r2, s2) = Screw X built s1 HexHeadScrew ''M6-1'' 20 ''iso4014'' ''right'' True 6;
          (r3, s3) = Screw X built s2 HexHeadScrew ''M6-1'' 20 ''iso4014'' ''right'' True 6;
          (r4, s4) = Washer X built s3 PlainWasher ''M6'' ''iso7089'';
          (r5, s5) = Nut X built s4 HexNut ''M6-1'' ''iso4032'' ''right'' True
      in s5)"

definition example_set_screw :: screw where
  "example_set_screw =
     \<lparr>screw_class = SetScrew, screw_size = ''M6-1'', screw_is_metric = True,
      screw_thread_diameter = 6, screw_thread_pitch = 1, screw_length = 20,
      screw_fastener_type = ''iso4026'', screw_hand = ''right'', screw_simple = True,
      screw_data = [(''s'', Num 3), (''t'', Num (35 / 10))],
      screw_socket_clearance = 6, screw_max_thread_length = 20, screw_thread_length = 20\<rparr>"

definition example_countersunk_screw :: screw where
  "example_countersunk_screw =
     \<lparr>screw_class = CounterSunkScrew, screw_size = ''M6-1'', screw_is_metric = True,
      screw_thread_diameter = 6, screw_thread_pitch = 1, screw_length = 20,
      screw_fastener_type = ''iso2009'', screw_hand = ''right'', screw_simple = True,
      screw_data = [(''a'', Num 90), (''dk'', Num (113 / 10)), (''k'', Num (33 / 10))],
      screw_socket_clearance = 6, screw_max_thread_length = 20 - 33 / 10,
      screw_thread_length = 20 - 33 / 10\<rparr>"

definition example_hex_screw :: screw where
  "example_hex_screw =
     \<lparr>screw_class = HexHeadScrew, screw_size = ''M6-1'', screw_is_metric = True,
      screw_thread_diameter = 6, screw_thread_pitch = 1, screw_length = 20,
      screw_fastener_type = ''iso4014'', screw_hand = ''right'', screw_simple = True,
      screw_data = [(''k'', Num 4), (''s'', Num 10)],
      screw_socket_clearance = 6, screw_max_thread_length = 20, screw_thread_length = 20\<rparr>"

definition example_washer :: washer where
  "example_washer =
     \<lparr>washer_class = PlainWasher, washer_size = ''M6'', washer_is_metric = True,
      washer_thread_diameter = 6, washer_fastener_type = ''iso7089'',
      washer_data = [(''d1'', Num (64 / 10)), (''d2'', Num 12), (''h'', Num (16 / 10))]\<rparr>"

definition example_nut :: nut where
  "example_nut =
     \<lparr>nut_class = HexNut, nut_size = ''M6-1'', nut_is_metric = True,
      nut_thread_diameter = 6, nut_thread_pitch = 1, nut_fastener_type = ''iso4032'',
      nut_hand = ''right'', nut_simple = True, nut_socket_clearance = 6,
      nut_data = [(''m'', Num (52 / 10)), (''s'', Num 10)]\<rparr>"



definition example_clearances :: "real dict" where
  "example_clearances = [(''Close'', 64 / 10), (''Normal'', 66 / 10), (''Loose'', 7)]"

definition example_locations :: "location list" where
  "example_locations = [(0, 0, 0), (10, 0, 0)]"

definition empty_assembly :: assembly where
  "empty_assembly = \<lparr>children = [], metadata = Missing\<rparr>"

text \<open>
  The assembly after two holes have been cut for the hexagon head screw with one washer,
  and after the same call has been made a second time.
\<close>

definition example_assembly_once :: assembly where
  "example_assembly_once =
     \<lparr>children =
        [\<lparr>child_name = ''u'', child_of = 4, child_hole = (0, 0, 0), child_along_bore = 0\<rparr>,
         \<lparr>child_name = ''uu'', child_of = 2, child_hole = (0, 0, 0),
            child_along_bore = - (16 / 10)\<rparr>,
         \<lparr>child_name = ''uuu'', child_of = 4, child_hole = (10, 0, 0), child_along_bore = 0\<rparr>,
         \<lparr>child_name = ''uuuu'', child_of = 2, child_hole = (10, 0, 0),
            child_along_bore = - (16 / 10)\<rparr>],
      metadata = Dict [(''u'', 4), (''uu'', 2), (''uuu'', 4), (''uuuu'', 2)]\<rparr>"

definition example_assembly_twice :: assembly where
  "example_assembly_twice =
     \<lparr>children = children example_assembly_once @
        [\<lparr>child_name = ''uuuuu'', child_of = 4, child_hole = (0, 0, 0), child_along_bore = 0\<rparr>,
         \<lparr>child_name = ''uuuuuu'', child_of = 2, child_hole = (0, 0, 0),
            child_along_bore = - (16 / 10)\<rparr>,
         \<lparr>child_name = ''uuuuuuu'', child_of = 4, child_hole = (10, 0, 0),
            child_along_bore = 0\<rparr>,
         \<lparr>child_name = ''uuuuuuuu'', child_of = 2, child_hole = (10, 0, 0),
            child_along_bore = - (16 / 10)\<rparr>],
      metadata = Dict [(''u'', 4), (''uu'', 2), (''uuu'', 4), (''uuuu'', 2),
                       (''uuuuu'', 4), (''uuuuuu'', 2), (''uuuuuuu'', 4), (''uuuuuuuu'', 2)]\<rparr>"

text \<open>An assembly in which each of the two equal hexagon head screws is recorded once.\<close>

definition example_two_screws :: assembly where
  "example_two_screws =
     \<lparr>children =
        [\<lparr>child_name = ''u'', child_of = 2, child_hole = (0, 0, 0), child_along_bore = 0\<rparr>,
         \<lparr>child_name = ''uu'', child_of = 3, child_hole = (10, 0, 0), child_along_bore = 0\<rparr>],
      metadata = Dict [(''u'', 2), (''uu'', 3)]\<rparr>"

text \<open>A table of hexalobular sizes with one row.\<close>

definition example_iso10664 :: fastener_table where
  "example_iso10664 =
     [(''T10'', [(''A'', Num (28 / 10)), (''B'', Num (205 / 100)), (''Re'', Num (229 / 1000))])]"

section \<open>Properties\<close>

lemma cos_radians_30: "cos (radians 30) = sqrt 3 / 2"
proof -
  have "radians 30 = pi / 6" by (simp add: radians_def)
  then have "cos (radians 30) = cos (pi / 6)" by (rule arg_cong)
  then show ?thesis by (simp only: cos_30)
qed

lemma sqrt3_lower: "(1732036 / 1000000 :: real) < sqrt 3"
  by (rule real_less_rsqrt) (simp add: power2_eq_square)

lemma sqrt3_upper: "sqrt 3 < (1732051 / 1000000 :: real)"
  by (rule real_less_lsqrt) (simp_all add: power2_eq_square)

text \<open>
  C9. \<open>polygon_diagonal width num_sides\<close> is \<open>width / cos (\<pi> / num_sides)\<close> for every
  positive width and side count; for width 10 and 6 sides it is \<open>10 / cos 30\<degree>\<close>, which
  rounds to 11.547.
\<close>

theorem polygon_diagonal_formula:
  "(0 < width \<and> 0 < num_sides \<longrightarrow>
      polygon_diagonal width num_sides = width / cos (pi / real_of_int num_sides))
   \<and> polygon_diagonal 10 6 = 10 / cos (radians 30)
   \<and> \<bar>polygon_diagonal 10 6 - 11547 / 1000\<bar> < 5 / 10000"
proof -
  have ex: "polygon_diagonal 10 6 = 10 / cos (radians 30)"
    by (simp add: polygon_diagonal_def radians_def)
  have val: "polygon_diagonal 10 6 = 20 / sqrt 3"
    by (simp add: ex cos_radians_30)
  have lo: "(115465 / 10000 :: real) < 20 / sqrt 3"
    using sqrt3_upper by (simp add: field_simps)
  have hi: "20 / sqrt 3 < (115475 / 10000 :: real)"
    using sqrt3_lower by (simp add: field_simps)
  have "\<bar>polygon_diagonal 10 6 - 11547 / 1000\<bar> < 5 / 10000"
    using lo hi unfolding val by linarith
  then show ?thesis using ex by (simp add: polygon_diagonal_def)
qed

theorem polygon_diagonal_formula_witness:
  "(0::real) < 10 \<and> (0::int) < 6 \<and> polygon_diagonal 10 6 = 10 / cos (pi / 6)"
  using polygon_diagonal_formula [of 10 6] by simp

lemma bind_err_Inl [simp]: "bind_err (Inl e) f = Inl e"
  by (simp add: bind_err_def)

lemma bind_err_Inr [simp]: "bind_err (Inr v) f = f v"
  by (simp add: bind_err_def)

lemma bind_err_eq_Inr:
  "bind_err r f = Inr y \<longleftrightarrow> (\<exists>v. r = Inr v \<and> f v = Inr y)"
  by (cases r) simp_all

subsection \<open>The objects of the examples\<close>

lemma example_store_eq:
  "example_store =
     [AScrew example_set_screw, AScrew example_countersunk_screw, AScrew example_hex_screw,
      AScrew example_hex_screw, AWasher example_washer, ANut example_nut]"
  by (simp add: example_store_def Screw_def Nut_def Washer_def new_def Screw_init_def Nut_init_def
      Washer_init_def check_parameters_def decode_thread_def float_def types_def
      lookup_dimensions_def isolate_fastener_type_def length_offset_def num_def built_def
      example_externals_def example_screws_def example_nuts_def example_washers_def
      py_strip_def whitespace_def MM_def example_set_screw_def example_countersunk_screw_def
      example_hex_screw_def example_washer_def example_nut_def)

lemma example_deref:
  "deref example_store 0 = AScrew example_set_screw"
  "deref example_store 1 = AScrew example_countersunk_screw"
  "deref example_store 2 = AScrew example_hex_screw"
  "deref example_store 3 = AScrew example_hex_screw"
  "deref example_store 4 = AWasher example_washer"
  "deref example_store 5 = ANut example_nut"
  by (simp_all add: deref_def example_store_eq)

subsection \<open>Dictionaries\<close>

lemma dict_set_fresh: "k \<notin> fst ` set d \<Longrightarrow> dict_set d k v = d @ [(k, v)]"
  by (induction d) auto

lemma map_of_dict_set: "map_of (dict_set d k v) = (map_of d)(k \<mapsto> v)"
  by (induction d) (auto simp: fun_eq_iff)

lemma map_of_fold_dict_set:
  assumes "\<forall>f \<in> set xs. key f = k \<longrightarrow> c f = v"
  shows "map_of (fold (\<lambda>f q. dict_set q (key f) (c f)) xs q0) k
         = (if \<exists>f \<in> set xs. key f = k then Some v else map_of q0 k)"
  using assms
proof (induction xs arbitrary: q0)
  case Nil
  then show ?case by simp
next
  case (Cons x xs)
  then show ?case by (simp add: map_of_dict_set)
qed

lemma count_list_filter: "count_list (filter P xs) x = (if P x then count_list xs x else 0)"
  by (induction xs) auto

lemma count_list_concat_replicate: "count_list (concat (replicate n ys)) x = n * count_list ys x"
  by (induction n) (simp_all add: count_list_append)

lemma count_list_absent: "x \<notin> set xs \<Longrightarrow> count_list xs x = 0"
  by (induction xs) auto

subsection \<open>Placements\<close>

lemma add_placement_records:
  assumes "add_placement X obj hole_loc along (a, n) = Inr (a', n')"
    and "uuid X n \<notin> fst ` set (records a)"
  shows "n' = Suc n \<and> records a' = records a @ [(uuid X n, obj)] \<and> metadata a' = Dict (records a')"
  using assms
  by (auto simp: add_placement_def records_def Let_def dict_set_fresh split: attribute.splits)

lemma place_washers_records:
  assumes "place_washers X store fastener ho hole_loc ws t (a, n) = Inr (t', a', n')"
    and "inj (uuid X)"
    and "\<forall>i. uuid X (n + i) \<notin> fst ` set (records a)"
  shows "n' = n + length ws
         \<and> map snd (records a') = map snd (records a) @ ws
         \<and> fst ` set (records a') = fst ` set (records a) \<union> uuid X ` {n ..< n'}
         \<and> (\<forall>w \<in> set ws. \<exists>x. deref store w = AWasher x)"
  using assms
proof (induction ws arbitrary: t a n)
  case Nil
  then show ?case by simp
next
  case (Cons w ws)
  from Cons.prems(1) obtain x offset thickness a1 n1 where
    w: "deref store w = AWasher x" and
    add: "add_placement X w hole_loc (ho - offset - t) (a, n) = Inr (a1, n1)" and
    rest: "place_washers X store fastener ho hole_loc ws (t + thickness) (a1, n1)
             = Inr (t', a', n')"
    by (auto simp: bind_err_eq_Inr split: py_object.splits)
  from Cons.prems(3) have fresh0: "uuid X n \<notin> fst ` set (records a)"
    by (metis add.right_neutral)
  from add_placement_records [OF add fresh0]
  have n1: "n1 = Suc n" and r1: "records a1 = records a @ [(uuid X n, w)]"
    by simp_all
  have fresh1: "\<forall>i. uuid X (n1 + i) \<notin> fst ` set (records a1)"
  proof
    fix i
    have "uuid X (n1 + i) \<noteq> uuid X n"
      using \<open>inj (uuid X)\<close> n1 by (auto dest: injD)
    moreover have "uuid X (n1 + i) \<notin> fst ` set (records a)"
      using Cons.prems(3) n1 by (metis add_Suc_shift)
    ultimately show "uuid X (n1 + i) \<notin> fst ` set (records a1)"
      by (auto simp: r1)
  qed
  from Cons.IH [OF rest \<open>inj (uuid X)\<close> fresh1]
  have ih: "n' = n1 + length ws" "map snd (records a') = map snd (records a1) @ ws"
    "fst ` set (records a') = fst ` set (records a1) \<union> uuid X ` {n1 ..< n'}"
    "\<forall>w \<in> set ws. \<exists>x. deref store w = AWasher x"
    by simp_all
  have "{n ..< n'} = insert n {n1 ..< n'}"
    using ih(1) n1 by auto
  then show ?case
    using ih w n1 r1 by auto
qed

lemma fresh_after:
  fixes f :: "nat \<Rightarrow> 'b" and n m :: nat
  assumes "inj f" and "\<forall>i. f (n + i) \<notin> K" and "n \<le> m"
  shows "\<forall>i. f (m + i) \<notin> K \<union> f ` {n ..< m}"
proof
  fix i :: nat
  have "f (m + i) = f (n + (m - n + i))" using \<open>n \<le> m\<close> by simp
  then have "f (m + i) \<notin> K" using assms(2) by metis
  moreover have "f (m + i) \<notin> f ` {n ..< m}"
    using \<open>inj f\<close> by (auto dest: injD)
  ultimately show "f (m + i) \<notin> K \<union> f ` {n ..< m}" by simp
qed

lemma place_fasteners_records:
  assumes "place_fasteners X store fastener ho washers locs (a, n) = Inr (a', n')"
    and "inj (uuid X)"
    and "\<forall>i. uuid X (n + i) \<notin> fst ` set (records a)"
  shows "n' = n + length locs * (length (washer_list washers) + 1)
         \<and> map snd (records a') =
             map snd (records a) @ concat (replicate (length locs) (washer_list washers @ [fastener]))
         \<and> fst ` set (records a') = fst ` set (records a) \<union> uuid X ` {n ..< n'}
         \<and> (locs \<noteq> [] \<longrightarrow> (\<forall>w \<in> set (washer_list washers). \<exists>x. deref store w = AWasher x)
               \<and> metadata a' = Dict (records a'))"
  using assms
proof (induction locs arbitrary: a n)
  case Nil
  then show ?case by simp
next
  case (Cons loc locs)
  let ?ws = "washer_list washers"
  from Cons.prems(1) obtain t a1 n1 offset a2 n2 where
    wash: "place_washers X store fastener ho loc ?ws 0 (a, n) = Inr (t, a1, n1)" and
    add: "add_placement X fastener loc (ho - offset - t) (a1, n1) = Inr (a2, n2)" and
    rest: "place_fasteners X store fastener ho washers locs (a2, n2) = Inr (a', n')"
    by (auto simp: bind_err_eq_Inr)
  from place_washers_records [OF wash Cons.prems(2,3)]
  have w: "n1 = n + length ?ws" "map snd (records a1) = map snd (records a) @ ?ws"
    "fst ` set (records a1) = fst ` set (records a) \<union> uuid X ` {n ..< n1}"
    "\<forall>w \<in> set ?ws. \<exists>x. deref store w = AWasher x"
    by simp_all
  have fresh1: "\<forall>i. uuid X (n1 + i) \<notin> fst ` set (records a1)"
    unfolding w(3) using fresh_after [OF Cons.prems(2,3), of n1] w(1) by simp
  then have "uuid X n1 \<notin> fst ` set (records a1)"
    by (metis add.right_neutral)
  from add_placement_records [OF add this]
  have f: "n2 = Suc n1" "records a2 = records a1 @ [(uuid X n1, fastener)]"
    "metadata a2 = Dict (records a2)"
    by simp_all
  have keys2: "fst ` set (records a2) = fst ` set (records a) \<union> uuid X ` {n ..< n2}"
  proof -
    have "{n ..< n2} = insert n1 {n ..< n1}" using f(1) w(1) by auto
    then show ?thesis by (auto simp: f(2) w(3))
  qed
  have fresh2: "\<forall>i. uuid X (n2 + i) \<notin> fst ` set (records a2)"
    unfolding keys2 using fresh_after [OF Cons.prems(2,3), of n2] f(1) w(1) by simp
  from Cons.IH [OF rest Cons.prems(2) fresh2]
  have ih: "n' = n2 + length locs * (length ?ws + 1)"
    "map snd (records a') = map snd (records a2) @ concat (replicate (length locs) (?ws @ [fastener]))"
    "fst ` set (records a') = fst ` set (records a2) \<union> uuid X ` {n2 ..< n'}"
    "locs \<noteq> [] \<longrightarrow> metadata a' = Dict (records a')"
    by simp_all
  have last: "locs = [] \<longrightarrow> a' = a2"
    using rest by auto
  have "n \<le> n2" "n2 \<le> n'" using f(1) w(1) ih(1) by simp_all
  then have "{n ..< n'} = {n ..< n2} \<union> {n2 ..< n'}" by auto
  then have keys: "fst ` set (records a') = fst ` set (records a) \<union> uuid X ` {n ..< n'}"
    using ih(3) keys2 by auto
  have meta: "metadata a' = Dict (records a')"
    using ih(4) last f(3) by (cases locs) auto
  show ?case
    using ih(1,2) f(1,2) w(1,2,4) keys meta by simp
qed

subsection \<open>Information texts\<close>

lemma screw_class_prefix:
  "takeWhile (\<lambda>c. c \<noteq> CHR ''('') (screw_class_name cls @ ''('' @ rest) = screw_class_name cls"
  by (cases cls) (simp_all add: screw_class_name_def)

lemma nut_class_prefix:
  "takeWhile (\<lambda>c. c \<noteq> CHR ''('') (nut_class_name cls @ ''('' @ rest) = nut_class_name cls"
  by (cases cls) (simp_all add: nut_class_name_def)

lemma washer_class_prefix:
  "takeWhile (\<lambda>c. c \<noteq> CHR ''('') (washer_class_name cls @ ''('' @ rest) = washer_class_name cls"
  by (cases cls) (simp_all add: washer_class_name_def)

lemma washer_not_screw_name: "washer_class_name w \<noteq> screw_class_name s"
  by (cases w; cases s) (simp_all add: washer_class_name_def screw_class_name_def)

lemma washer_not_nut_name: "washer_class_name w \<noteq> nut_class_name n"
  by (cases w; cases n) (simp_all add: washer_class_name_def nut_class_name_def)

lemma washer_info_not_screw_info: "washer_info w \<noteq> screw_info X s"
proof
  assume "washer_info w = screw_info X s"
  then have "takeWhile (\<lambda>c. c \<noteq> CHR ''('') (washer_info w)
             = takeWhile (\<lambda>c. c \<noteq> CHR ''('') (screw_info X s)"
    by simp
  then have "washer_class_name (washer_class w) = screw_class_name (screw_class s)"
    unfolding washer_info_def screw_info_def
    by (simp only: washer_class_prefix screw_class_prefix)
  then show False by (simp add: washer_not_screw_name)
qed

lemma washer_info_not_nut_info: "washer_info w \<noteq> nut_info n"
proof
  assume "washer_info w = nut_info n"
  then have "takeWhile (\<lambda>c. c \<noteq> CHR ''('') (washer_info w)
             = takeWhile (\<lambda>c. c \<noteq> CHR ''('') (nut_info n)"
    by simp
  then have "washer_class_name (washer_class w) = nut_class_name (nut_class n)"
    unfolding washer_info_def nut_info_def
    by (simp only: washer_class_prefix nut_class_prefix)
  then show False by (simp add: washer_not_nut_name)
qed

subsection \<open>Quantities\<close>

lemma fastener_quantities_by_instance:
  assumes "metadata self = Dict d" and "\<forall>xs. set (set_iteration X xs) = set xs"
  shows "\<exists>q. fastener_quantities X store False self = Inr (Some q)
           \<and> (\<forall>r. map_of q (Instance r)
                  = (if r \<in> set (map snd d) \<and> is_fastener store r
                     then Some (count_list (map snd d) r) else None))"
proof -
  let ?fs = "filter (is_fastener store) (map snd d)"
  let ?q = "fold (\<lambda>f q. dict_set q (Instance f) (count_list ?fs f)) (set_iteration X ?fs) []"
  have run: "fastener_quantities X store False self = Inr (Some ?q)"
    by (simp add: fastener_quantities_def assms(1) Let_def)
  have "map_of ?q (Instance r)
          = (if r \<in> set (map snd d) \<and> is_fastener store r
             then Some (count_list (map snd d) r) else None)" for r
  proof -
    have "\<forall>f \<in> set (set_iteration X ?fs). Instance f = Instance r \<longrightarrow> count_list ?fs f = count_list ?fs r"
      by simp
    from map_of_fold_dict_set [where key = Instance and c = "count_list ?fs", OF this, of "[]"]
    show ?thesis
      using assms(2) by (auto simp: count_list_filter)
  qed
  with run show ?thesis by blast
qed

lemma fastener_quantities_by_info:
  assumes "metadata self = Dict d" and "\<forall>xs. set (set_iteration X xs) = set xs"
    and "r \<in> set (map snd d)" and "is_fastener store r"
    and "\<forall>g \<in> set (map snd d). is_fastener store g \<and> info X store g = info X store r \<longrightarrow> g = r"
  shows "\<exists>q. fastener_quantities X store True self = Inr (Some q)
           \<and> map_of q (Info (info X store r)) = Some (count_list (map snd d) r)"
proof -
  let ?fs = "filter (is_fastener store) (map snd d)"
  let ?q = "fold (\<lambda>f q. dict_set q (Info (info X store f)) (count_list ?fs f))
              (set_iteration X ?fs) []"
  have run: "fastener_quantities X store True self = Inr (Some ?q)"
    by (simp add: fastener_quantities_def assms(1) Let_def)
  have same: "\<forall>f \<in> set (set_iteration X ?fs).
               Info (info X store f) = Info (info X store r) \<longrightarrow> count_list ?fs f = count_list ?fs r"
    using assms(2,5) by auto
  have "\<exists>f \<in> set (set_iteration X ?fs). Info (info X store f) = Info (info X store r)"
    using assms(2,3,4) by auto
  with map_of_fold_dict_set [where key = "\<lambda>f. Info (info X store f)" and c = "count_list ?fs",
      OF same, of "[]"]
  have "map_of ?q (Info (info X store r)) = Some (count_list ?fs r)"
    by simp
  with run assms(4) show ?thesis by (auto simp: count_list_filter)
qed

subsection \<open>The calls of the examples\<close>

lemma example_uuid: "uuid example_externals n = replicate (Suc n) CHR ''u''"
  by (simp add: example_externals_def)

lemma example_uuid_inj: "inj (uuid example_externals)"
proof (rule injI)
  fix m n
  assume "uuid example_externals m = uuid example_externals n"
  then have "length (replicate (Suc m) CHR ''u'') = length (replicate (Suc n) CHR ''u'')"
    by (simp only: example_uuid)
  then show "m = n" by simp
qed

lemma replicate_numeral: "replicate (numeral k) x = x # replicate (pred_numeral k) x"
  by (simp add: numeral_eq_Suc)

lemma example_set_iteration: "set_iteration example_externals = remdups"
  by (simp add: example_externals_def)

lemma example_washer_thickness: "washer_thickness example_washer = Inr (16 / 10)"
  by (simp add: washer_thickness_def washer_profile_def example_washer_def num_def top_Z_def
      vertices_def close_def hLineTo_def vLineTo_def lineTo_def moveTo_def Workplane_def Let_def)

lemma example_hex_screw_facts:
  "countersink_profile example_externals (AScrew example_hex_screw) fit
     = Inr (Some (rect ((polygon_diagonal 10 6 + 6 + polygon_diagonal 10 6) / 2) 4 Workplane))"
  "fastener_length_offset (AScrew example_hex_screw) = Inr 0"
  "fastener_thread_diameter (AScrew example_hex_screw) = Inr 6"
  "screw_info example_externals example_hex_screw = ''HexHeadScrew(iso4014): M6-1x20''"
  by (simp_all add: example_hex_screw_def countersink_profile_def screw_countersink_profile_def
      num_def Let_def fastener_length_offset_def length_offset_def fastener_thread_diameter_def
      screw_info_def screw_class_name_def example_externals_def)

lemma example_washer_info: "washer_info example_washer = ''PlainWasher(iso7089): M6''"
  by (simp add: washer_info_def washer_class_name_def example_washer_def)

lemma example_first_call:
  "map_sum id base_assembly
     (fastenerHole example_externals example_store 0 example_locations example_clearances 2 10
        (Some [4]) (Some ''Normal'') None False (Some empty_assembly) None False True)
   = Inr (Some example_assembly_once)"
  by (simp add: fastenerHole_def example_deref example_hex_screw_facts countersink_def
      bore_radius_def lookup_key_def example_clearances_def place_in_assembly_def
      example_locations_def washer_list_def example_washer_thickness add_placement_def
      example_uuid empty_assembly_def example_assembly_once_def Let_def)

lemma example_second_call:
  "map_sum id base_assembly
     (fastenerHole example_externals example_store 4 example_locations example_clearances 2 10
        (Some [4]) (Some ''Normal'') None False (Some example_assembly_once) None False True)
   = Inr (Some example_assembly_twice)"
  by (simp add: fastenerHole_def example_deref example_hex_screw_facts countersink_def
      bore_radius_def lookup_key_def example_clearances_def place_in_assembly_def
      example_locations_def washer_list_def example_washer_thickness add_placement_def
      example_uuid example_assembly_twice_def example_assembly_once_def Let_def replicate_numeral)

lemma example_quantities_twice:
  "fastener_quantities example_externals example_store True example_assembly_twice
     = Inr (Some [(Info ''PlainWasher(iso7089): M6'', 4), (Info ''HexHeadScrew(iso4014): M6-1x20'', 4)])"
  by (simp add: fastener_quantities_def example_assembly_twice_def example_set_iteration
      is_fastener_def info_def example_deref example_hex_screw_facts example_washer_info Let_def)

lemma cross_plan_edges:
  "edges (cross_plan m) =
     cross_contour m
     @ map (map_prod reflect_in_x_axis reflect_in_x_axis) (cross_contour m)
     @ map (map_prod reflect_in_y_axis reflect_in_y_axis)
         (cross_contour m @ map (map_prod reflect_in_x_axis reflect_in_x_axis) (cross_contour m))"
  by (simp add: cross_plan_def cross_contour_def mirrorX_def mirrorY_def hLineTo_def vLineTo_def
      lineTo_def moveTo_def Workplane_def)

lemma cross_plan_vertices:
  "set (vertices (cross_plan m)) =
     {(m / 2, 0), (m / 2, m / 12), (m / 12, m / 12), (m / 12, m / 2), (0, m / 2),
      (m / 2, - (m / 12)), (m / 12, - (m / 12)), (m / 12, - (m / 2)), (0, - (m / 2)),
      (- (m / 2), 0), (- (m / 2), m / 12), (- (m / 12), m / 12), (- (m / 12), m / 2),
      (- (m / 2), - (m / 12)), (- (m / 12), - (m / 12)), (- (m / 12), - (m / 2))}"
  unfolding vertices_def cross_plan_edges cross_contour_def
  by (auto simp: reflect_in_x_axis_def reflect_in_y_axis_def)

lemma BoxSelector_cross:
  assumes "0 < m" and "p \<in> set (vertices (cross_plan m))"
  shows "BoxSelector (- m / 3, - m / 3, - m / 3) (m / 3, m / 3, m / 3) p
         \<longleftrightarrow> \<bar>fst p\<bar> \<le> m / 6 \<and> \<bar>snd p\<bar> \<le> m / 6"
  using assms unfolding cross_plan_vertices BoxSelector_def xor_lt_def
  by auto

lemma cross_widths_pos: "map_of cross_widths size_code = Some m \<Longrightarrow> 0 < m"
  by (auto simp: cross_widths_def split: if_splits)

lemma cross_depths_defined:
  assumes "map_of cross_widths size_code = Some m"
  shows "map_of cross_depths size_code \<noteq> None"
proof -
  have "size_code \<in> fst ` set cross_widths"
    using assms by (metis domI dom_map_of_conv_image_fst)
  also have "fst ` set cross_widths = fst ` set cross_depths"
    by (simp add: cross_widths_def cross_depths_def)
  finally show ?thesis by (simp add: map_of_eq_None_iff)
qed

text \<open>
  C3. For a size code of the table, with width \<open>m\<close>, \<open>cross_recess\<close> returns the outline
  made of the contour \<open>cross_contour m\<close> and its reflections in both axes, asks for
  fillets of radius \<open>m / 3\<close> at exactly the vertices with \<open>\<bar>x\<bar> \<le> m / 6\<close> and
  \<open>\<bar>y\<bar> \<le> m / 6\<close>, the central third of the bounding box of width \<open>m\<close>, and at no
  vertex of a blade tip (\<open>\<bar>x\<bar> = m / 2\<close> or \<open>\<bar>y\<bar> = m / 2\<close>). The selector the code
  uses is the larger box \<open>\<plusminus> m / 3\<close>; on the vertices of this outline both select the
  four re-entrant corners.
\<close>

theorem cross_recess_fillets:
  assumes "map_of cross_widths size_code = Some m"
  shows "\<exists>plan depth. cross_recess size_code = Inr (plan, depth)
           \<and> map_of cross_depths size_code = Some depth
           \<and> set (edges (outline plan)) =
               (\<Union>f \<in> {id, reflect_in_x_axis, reflect_in_y_axis, reflect_in_y_axis \<circ> reflect_in_x_axis}.
                  map_prod f f ` set (cross_contour m))
           \<and> fillet_radius plan = m / 3
           \<and> set (fillet_at plan) =
               {v \<in> set (vertices (outline plan)). \<bar>fst v\<bar> \<le> m / 6 \<and> \<bar>snd v\<bar> \<le> m / 6}
           \<and> set (fillet_at plan) \<inter>
               {v \<in> set (vertices (outline plan)). \<bar>fst v\<bar> = m / 2 \<or> \<bar>snd v\<bar> = m / 2} = {}"
proof -
  from assms have pos: "0 < m" by (rule cross_widths_pos)
  from assms obtain d where d: "map_of cross_depths size_code = Some d"
    using cross_depths_defined by fastforce
  define vs where
    "vs = filter (BoxSelector (- m / 3, - m / 3, - m / 3) (m / 3, m / 3, m / 3))
            (vertices (cross_plan m))"
  have run: "cross_recess size_code = Inr (fillet2D (m / 3) vs (cross_plan m), d)"
    by (simp add: cross_recess_def assms d vs_def Let_def)
  have sel: "set vs = {v \<in> set (vertices (cross_plan m)). \<bar>fst v\<bar> \<le> m / 6 \<and> \<bar>snd v\<bar> \<le> m / 6}"
    using BoxSelector_cross [OF pos] by (auto simp: vs_def)
  have tips: "set vs \<inter> {v \<in> set (vertices (cross_plan m)). \<bar>fst v\<bar> = m / 2 \<or> \<bar>snd v\<bar> = m / 2} = {}"
    unfolding sel using pos by auto
  have sym: "set (edges (cross_plan m)) =
               (\<Union>f \<in> {id, reflect_in_x_axis, reflect_in_y_axis, reflect_in_y_axis \<circ> reflect_in_x_axis}.
                  map_prod f f ` set (cross_contour m))"
  proof -
    have comp: "(\<lambda>e. map_prod reflect_in_y_axis reflect_in_y_axis
                   (map_prod reflect_in_x_axis reflect_in_x_axis e)) =
                map_prod (reflect_in_y_axis \<circ> reflect_in_x_axis)
                  (reflect_in_y_axis \<circ> reflect_in_x_axis)"
      by (auto simp: fun_eq_iff)
    have ident: "map_prod id id ` set (cross_contour m) = set (cross_contour m)"
      by (simp add: prod.map_id0)
    show ?thesis
      unfolding cross_plan_edges
      by (simp add: image_Un image_image comp [symmetric] ident Un_assoc del: map_prod_simp)
  qed
  show ?thesis
    using run d sel tips sym by (simp add: fillet2D_def)
qed

theorem cross_recess_fillets_witness:
  "map_of cross_widths ''PH2'' = Some (53 / 10)
   \<and> (\<exists>plan depth. cross_recess ''PH2'' = Inr (plan, depth)
         \<and> depth = 327 / 100 \<and> fillet_radius plan = 53 / 30
         \<and> (53 / 120, 53 / 120) \<in> set (fillet_at plan)
         \<and> (53 / 20, 53 / 120) \<in> set (vertices (outline plan))
         \<and> (53 / 20, 53 / 120) \<notin> set (fillet_at plan))"
proof -
  have h: "map_of cross_widths ''PH2'' = Some (53 / 10)"
    by (simp add: cross_widths_def)
  have v: "(53 / 120, 53 / 120) \<in> set (vertices (cross_plan (53 / 10)))"
          "(53 / 20, 53 / 120) \<in> set (vertices (cross_plan (53 / 10)))"
    unfolding cross_plan_vertices by simp_all
  from cross_recess_fillets [OF h] obtain plan depth where
    r: "cross_recess ''PH2'' = Inr (plan, depth)" and
    dp: "map_of cross_depths ''PH2'' = Some depth" and
    fr: "fillet_radius plan = 53 / 10 / 3" and
    fa: "set (fillet_at plan) =
          {v \<in> set (vertices (outline plan)). \<bar>fst v\<bar> \<le> 53 / 10 / 6 \<and> \<bar>snd v\<bar> \<le> 53 / 10 / 6}"
    by blast
  have o: "outline plan = cross_plan (53 / 10)"
    using r by (auto simp: cross_recess_def h fillet2D_def Let_def split: option.splits)
  have "depth = 327 / 100" using dp by (simp add: cross_depths_def)
  moreover have "fillet_radius plan = 53 / 30" using fr by simp
  moreover have "(53 / 120, 53 / 120) \<in> set (fillet_at plan)"
    unfolding fa o using v by simp
  moreover have "(53 / 20, 53 / 120) \<notin> set (fillet_at plan)"
    unfolding fa o by simp
  ultimately show ?thesis using h r v o by auto
qed

text \<open>An unknown size code is rejected.\<close>

lemma cross_recess_invalid:
  "map_of cross_widths size_code = None \<Longrightarrow>
     cross_recess size_code = Inl (ValueError (InvalidCrossSize size_code cross_widths))"
  by (simp add: cross_recess_def)

subsection \<open>The checks of the constructors\<close>

lemma check_parameters_size:
  "length (py_split CHR ''-'' (py_strip sz)) \<noteq> 2 \<Longrightarrow>
     check_parameters X t sz ft hand = Inl (ValueError (SizeFormat (py_split CHR ''-'' (py_strip sz))))"
  by (simp add: check_parameters_def)

lemma check_parameters_type:
  "length (py_split CHR ''-'' (py_strip sz)) = 2 \<Longrightarrow>
   decode_thread X sz (py_split CHR ''-'' (py_strip sz)) = Inr th \<Longrightarrow>
   types t = Inr ts \<Longrightarrow> ft \<notin> set ts \<Longrightarrow>
     check_parameters X t sz ft hand = Inl (ValueError (UnknownType ft ts))"
  by (simp add: check_parameters_def)

lemma check_parameters_hand:
  "length (py_split CHR ''-'' (py_strip sz)) = 2 \<Longrightarrow>
   decode_thread X sz (py_split CHR ''-'' (py_strip sz)) = Inr th \<Longrightarrow>
   types t = Inr ts \<Longrightarrow> ft \<in> set ts \<Longrightarrow> hand \<noteq> ''left'' \<Longrightarrow> hand \<noteq> ''right'' \<Longrightarrow>
     check_parameters X t sz ft hand = Inl (ValueError (UnknownHand hand))"
  by (simp add: check_parameters_def)

lemma check_parameters_pass:
  "length (py_split CHR ''-'' (py_strip sz)) = 2 \<Longrightarrow>
   decode_thread X sz (py_split CHR ''-'' (py_strip sz)) = Inr th \<Longrightarrow>
   types t = Inr ts \<Longrightarrow> ft \<in> set ts \<Longrightarrow> hand = ''left'' \<or> hand = ''right'' \<Longrightarrow>
     check_parameters X t sz ft hand = Inr th"
  by (auto simp add: check_parameters_def)

text \<open>
  C8, as the code has it. \<open>Screw_init\<close> and \<open>Nut_init\<close> make their checks in this
  order, and the first that fails decides the error: the size must split at the dash into
  exactly two parts, else the error is \<open>SizeFormat\<close>; once the thread is decoded from
  them, the type must be one of the types of the class's table, else the error is
  \<open>UnknownType\<close>; then the hand must be \<open>left\<close> or \<open>right\<close>, else the error is
  \<open>UnknownHand\<close>; with all three valid the checks return the decoded thread.
  \<open>Washer_init\<close> takes no hand and does not split its size: once the diameter is read
  from the size it checks the type only, and goes on to look the dimensions up.
\<close>

theorem constructor_checks:
  fixes X :: externals and sz wsz ft hand :: string and len clearance :: real and simple :: bool
    and build_screw :: "screw \<Rightarrow> error option" and build_nut :: "nut \<Rightarrow> error option"
    and build_washer :: "washer \<Rightarrow> error option"
    and scls :: screw_class and ncls :: nut_class and wcls :: washer_class
  defines "parts \<equiv> py_split CHR ''-'' (py_strip sz)"
  defines "S \<equiv> Screw_init X build_screw scls sz len ft hand simple clearance"
  defines "N \<equiv> Nut_init X build_nut ncls sz ft hand simple"
  defines "W \<equiv> Washer_init X build_washer wcls wsz ft"
  shows
    "(length parts \<noteq> 2 \<longrightarrow>
        S = Inl (ValueError (SizeFormat parts)) \<and> N = Inl (ValueError (SizeFormat parts)))
     \<and> (length parts = 2 \<and> decode_thread X sz parts = Inr th \<longrightarrow>
          (types (screw_fastener_data X scls) = Inr ts \<and> ft \<notin> set ts \<longrightarrow>
             S = Inl (ValueError (UnknownType ft ts)))
        \<and> (types (nut_fastener_data X ncls) = Inr ts \<and> ft \<notin> set ts \<longrightarrow>
             N = Inl (ValueError (UnknownType ft ts)))
        \<and> (types (screw_fastener_data X scls) = Inr ts \<and> ft \<in> set ts
             \<and> hand \<noteq> ''left'' \<and> hand \<noteq> ''right'' \<longrightarrow>
             S = Inl (ValueError (UnknownHand hand)))
        \<and> (types (nut_fastener_data X ncls) = Inr ts \<and> ft \<in> set ts
             \<and> hand \<noteq> ''left'' \<and> hand \<noteq> ''right'' \<longrightarrow>
             N = Inl (ValueError (UnknownHand hand)))
        \<and> (types (screw_fastener_data X scls) = Inr ts \<and> ft \<in> set ts
             \<and> (hand = ''left'' \<or> hand = ''right'') \<longrightarrow>
             check_parameters X (screw_fastener_data X scls) sz ft hand = Inr th)
        \<and> (types (nut_fastener_data X ncls) = Inr ts \<and> ft \<in> set ts
             \<and> (hand = ''left'' \<or> hand = ''right'') \<longrightarrow>
             check_parameters X (nut_fastener_data X ncls) sz ft hand = Inr th))
     \<and> (wsz \<noteq> [] \<and> (if hd wsz = CHR ''M'' then float X (drop 1 wsz)
                        else imperial_str_to_float X wsz) = Inr d
          \<and> types (washer_fastener_data X wcls) = Inr ts \<longrightarrow>
          (ft \<notin> set ts \<longrightarrow> W = Inl (ValueError (UnknownType ft ts)))
          \<and> (ft \<in> set ts \<longrightarrow>
               W = bind_err (lookup_dimensions (washer_fastener_data X wcls) ft wsz)
                     (\<lambda>data.
                        let self = \<lparr>washer_class = wcls, washer_size = wsz,
                              washer_is_metric = (hd wsz = CHR ''M''),
                              washer_thread_diameter = d,
                              washer_fastener_type = ft, washer_data = data\<rparr>
                        in (case build_washer self of Some e \<Rightarrow> Inl e | None \<Rightarrow> Inr self))))"
proof -
  have size: "length parts \<noteq> 2 \<Longrightarrow>
      S = Inl (ValueError (SizeFormat parts)) \<and> N = Inl (ValueError (SizeFormat parts))"
    unfolding S_def N_def parts_def Screw_init_def Nut_init_def
    by (simp add: check_parameters_size)
  have ty_s: "S = Inl (ValueError (UnknownType ft ts))"
    if "length parts = 2" "decode_thread X sz parts = Inr th"
       "types (screw_fastener_data X scls) = Inr ts" "ft \<notin> set ts" for ts
    using that unfolding S_def parts_def Screw_init_def
    by (simp add: check_parameters_type)
  have ty_n: "N = Inl (ValueError (UnknownType ft ts))"
    if "length parts = 2" "decode_thread X sz parts = Inr th"
       "types (nut_fastener_data X ncls) = Inr ts" "ft \<notin> set ts" for ts
    using that unfolding N_def parts_def Nut_init_def
    by (simp add: check_parameters_type)
  have hnd: "S = Inl (ValueError (UnknownHand hand))"
    if "length parts = 2" "decode_thread X sz parts = Inr th"
       "types (screw_fastener_data X scls) = Inr ts" "ft \<in> set ts"
       "hand \<noteq> ''left''" "hand \<noteq> ''right''" for ts
    using that unfolding S_def parts_def Screw_init_def
    by (simp add: check_parameters_hand)
  have hndn: "N = Inl (ValueError (UnknownHand hand))"
    if "length parts = 2" "decode_thread X sz parts = Inr th"
       "types (nut_fastener_data X ncls) = Inr ts" "ft \<in> set ts"
       "hand \<noteq> ''left''" "hand \<noteq> ''right''" for ts
    using that unfolding N_def parts_def Nut_init_def
    by (simp add: check_parameters_hand)
  have pass: "check_parameters X t sz ft hand = Inr th"
    if "length parts = 2" "decode_thread X sz parts = Inr th"
       "types t = Inr ts" "ft \<in> set ts" "hand = ''left'' \<or> hand = ''right''" for t ts
    using that unfolding parts_def by (rule check_parameters_pass)
  have wash: "(ft \<notin> set ts \<longrightarrow> W = Inl (ValueError (UnknownType ft ts)))
          \<and> (ft \<in> set ts \<longrightarrow>
               W = bind_err (lookup_dimensions (washer_fastener_data X wcls) ft wsz)
                     (\<lambda>data.
                        let self = \<lparr>washer_class = wcls, washer_size = wsz,
                              washer_is_metric = (hd wsz = CHR ''M''),
                              washer_thread_diameter = d,
                              washer_fastener_type = ft, washer_data = data\<rparr>
                        in (case build_washer self of Some e \<Rightarrow> Inl e | None \<Rightarrow> Inr self)))"
    if "wsz \<noteq> []" "(if hd wsz = CHR ''M'' then float X (drop 1 wsz)
                        else imperial_str_to_float X wsz) = Inr d"
       "types (washer_fastener_data X wcls) = Inr ts"
    using that unfolding W_def Washer_init_def
    by (cases wsz) (simp_all split: if_splits)
  show ?thesis
    apply (intro conjI impI)
    subgoal using size by simp
    subgoal using size by simp
    subgoal using ty_s by simp
    subgoal using ty_n by simp
    subgoal using hnd by simp
    subgoal using hndn by simp
    subgoal using pass by simp
    subgoal using pass by simp
    subgoal using wash by simp
    subgoal using wash by simp
    done
qed

lemma example_parts: "py_split CHR ''-'' (py_strip ''M6-1'') = [''M6'', ''1'']"
  by (simp add: py_strip_def whitespace_def)

lemma example_decode_thread:
  "decode_thread example_externals ''M6-1'' [''M6'', ''1''] = Inr (True, 6, 1)"
  by (simp add: decode_thread_def float_def example_externals_def)

lemma example_types:
  "types (screw_fastener_data example_externals HexHeadScrew) = Inr [''iso4014'']"
  "types (screw_fastener_data example_externals CounterSunkScrew) = Inr [''iso2009'']"
  "types (nut_fastener_data example_externals HexNut) = Inr [''iso4032'']"
  "types (washer_fastener_data example_externals PlainWasher) = Inr [''iso7089'']"
  by (simp_all add: types_def example_externals_def example_screws_def example_nuts_def
      example_washers_def)

theorem constructor_checks_witness:
  "Screw_init example_externals built HexHeadScrew ''M6'' 20 ''iso4014'' ''right'' True 6
     = Inl (ValueError (SizeFormat [''M6'']))
   \<and> Nut_init example_externals built HexNut ''M6-1'' ''iso4033'' ''right'' True
     = Inl (ValueError (UnknownType ''iso4033'' [''iso4032'']))
   \<and> Screw_init example_externals built HexHeadScrew ''M6-1'' 20 ''iso4014'' ''up'' True 6
     = Inl (ValueError (UnknownHand ''up''))
   \<and> check_parameters example_externals (nut_fastener_data example_externals HexNut)
       ''M6-1'' ''iso4032'' ''left'' = Inr (True, 6, 1)
   \<and> Washer_init example_externals built PlainWasher ''M6'' ''iso7090''
     = Inl (ValueError (UnknownType ''iso7090'' [''iso7089'']))"
proof -
  have one: "py_split CHR ''-'' (py_strip ''M6'') = [''M6'']"
    by (simp add: py_strip_def whitespace_def)
  have wd: "(if hd ''M6'' = CHR ''M'' then float example_externals (drop 1 ''M6'')
             else imperial_str_to_float example_externals ''M6'') = Inr 6"
    by (simp add: float_def example_externals_def)
  have a: "Screw_init example_externals built HexHeadScrew ''M6'' 20 ''iso4014'' ''right'' True 6
             = Inl (ValueError (SizeFormat [''M6'']))"
    using constructor_checks [where X = example_externals and sz = "''M6''"
        and build_screw = built and scls = HexHeadScrew and len = 20 and ft = "''iso4014''"
        and hand = "''right''" and simple = True and clearance = 6]
    by (simp add: one)
  have b: "Nut_init example_externals built HexNut ''M6-1'' ''iso4033'' ''right'' True
             = Inl (ValueError (UnknownType ''iso4033'' [''iso4032'']))"
    using constructor_checks [where X = example_externals and sz = "''M6-1''"
        and build_nut = built and ncls = HexNut and ft = "''iso4033''"
        and hand = "''right''" and simple = True and th = "(True, 6, 1)"
        and ts = "[''iso4032'']"]
    by (simp add: example_parts example_decode_thread example_types)
  have c: "Screw_init example_externals built HexHeadScrew ''M6-1'' 20 ''iso4014'' ''up'' True 6
             = Inl (ValueError (UnknownHand ''up''))"
    using constructor_checks [where X = example_externals and sz = "''M6-1''"
        and build_screw = built and scls = HexHeadScrew and len = 20 and ft = "''iso4014''"
        and hand = "''up''" and simple = True and clearance = 6 and th = "(True, 6, 1)"
        and ts = "[''iso4014'']"]
    by (simp add: example_parts example_decode_thread example_types)
  have d: "check_parameters example_externals (nut_fastener_data example_externals HexNut)
             ''M6-1'' ''iso4032'' ''left'' = Inr (True, 6, 1)"
    using constructor_checks [where X = example_externals and sz = "''M6-1''"
        and ncls = HexNut and ft = "''iso4032''"
        and hand = "''left''" and th = "(True, 6, 1)" and ts = "[''iso4032'']"]
    by (simp add: example_parts example_decode_thread example_types)
  have e: "Washer_init example_externals built PlainWasher ''M6'' ''iso7090''
             = Inl (ValueError (UnknownType ''iso7090'' [''iso7089'']))"
    using constructor_checks [where X = example_externals and wsz = "''M6''"
        and build_washer = built and wcls = PlainWasher and ft = "''iso7090''"
        and d = 6 and ts = "[''iso7089'']"] wd
    by (simp add: example_types)
  from a b c d e show ?thesis by simp
qed

text \<open>
  C8, as stated, fails for the washer family: the size \<open>M6\<close> does not split into a
  diameter and a pitch, and the plain washer of that size is constructed.
\<close>

theorem washer_size_without_pitch:
  "length (py_split CHR ''-'' (py_strip ''M6'')) \<noteq> 2
   \<and> Washer_init example_externals built PlainWasher ''M6'' ''iso7089''
       = Inr \<lparr>washer_class = PlainWasher, washer_size = ''M6'', washer_is_metric = True,
              washer_thread_diameter = 6, washer_fastener_type = ''iso7089'',
              washer_data = [(''d1'', Num (64 / 10)), (''d2'', Num 12), (''h'', Num (16 / 10))]\<rparr>"
  by (simp add: py_strip_def whitespace_def Washer_init_def float_def example_externals_def
      types_def example_washers_def lookup_dimensions_def isolate_fastener_type_def built_def)

subsection \<open>Countersunk screws\<close>

lemma length_offset_countersunk:
  "cls = CounterSunkScrew \<or> cls = RaisedCounterSunkOvalHeadScrew \<Longrightarrow>
     length_offset cls data = num data ''k''"
  by (auto simp: length_offset_def)

lemma num_Inr: "num data k = Inr v \<longleftrightarrow> map_of data k = Some (Num v)"
  by (simp add: num_def split: option.splits cell.splits)

text \<open>
  C7. For both countersunk classes, a constructed screw has its head height \<open>k\<close>, the
  value of \<open>length_offset\<close>, strictly below its length; and when the parameters pass
  the checks, the dimensions are found and the length is at most \<open>k\<close>, the constructor
  raises \<open>ScrewTooShort\<close> whatever the kernel would do with the solid, which it is
  never asked to build. The witness is the countersunk M6-1 screw of the example
  catalogue, of length equal to its head height 3.3.
\<close>

theorem countersunk_length:
  assumes "cls = CounterSunkScrew \<or> cls = RaisedCounterSunkOvalHeadScrew"
  shows "(Screw_init X build cls sz len ft hand simple clearance = Inr self \<longrightarrow>
            (\<exists>k. map_of (screw_data self) ''k'' = Some (Num k)
                 \<and> length_offset (screw_class self) (screw_data self) = Inr k
                 \<and> k < screw_length self \<and> screw_length self = len))
         \<and> (check_parameters X (screw_fastener_data X cls) sz ft hand = Inr th
              \<and> lookup_dimensions (screw_fastener_data X cls) ft sz = Inr data
              \<and> map_of data ''k'' = Some (Num k) \<and> len \<le> k \<longrightarrow>
              (\<forall>build. Screw_init X build cls sz len ft hand simple clearance
                         = Inl (ValueError (ScrewTooShort len k))))"
proof (intro conjI impI)
  assume ok: "Screw_init X build cls sz len ft hand simple clearance = Inr self"
  then show "\<exists>k. map_of (screw_data self) ''k'' = Some (Num k)
           \<and> length_offset (screw_class self) (screw_data self) = Inr k
           \<and> k < screw_length self \<and> screw_length self = len"
    using assms unfolding Screw_init_def
    by (auto simp: bind_err_eq_Inr Let_def length_offset_countersunk num_Inr
        split: prod.splits if_splits option.splits)
next
  assume h: "check_parameters X (screw_fastener_data X cls) sz ft hand = Inr th
              \<and> lookup_dimensions (screw_fastener_data X cls) ft sz = Inr data
              \<and> map_of data ''k'' = Some (Num k) \<and> len \<le> k"
  then have "length_offset cls data = Inr k"
    using assms by (simp add: length_offset_countersunk num_Inr)
  with h show "\<forall>build. Screw_init X build cls sz len ft hand simple clearance
                 = Inl (ValueError (ScrewTooShort len k))"
    unfolding Screw_init_def by (simp split: prod.splits)
qed

theorem countersunk_length_witness:
  "Screw_init example_externals built CounterSunkScrew ''M6-1'' (33 / 10) ''iso2009'' ''right''
       True 6 = Inl (ValueError (ScrewTooShort (33 / 10) (33 / 10)))
   \<and> (\<exists>self. Screw_init example_externals built CounterSunkScrew ''M6-1'' 20 ''iso2009''
         ''right'' True 6 = Inr self
       \<and> length_offset (screw_class self) (screw_data self) = Inr (33 / 10)
       \<and> 33 / 10 < screw_length self)"
proof -
  have cls: "CounterSunkScrew = CounterSunkScrew \<or> CounterSunkScrew = RaisedCounterSunkOvalHeadScrew"
    by simp
  have chk: "check_parameters example_externals
               (screw_fastener_data example_externals CounterSunkScrew) ''M6-1'' ''iso2009'' ''right''
             = Inr (True, 6, 1)"
    by (simp add: check_parameters_def example_parts example_decode_thread example_types)
  have dims: "lookup_dimensions (screw_fastener_data example_externals CounterSunkScrew)
                ''iso2009'' ''M6-1''
              = Inr [(''a'', Num 90), (''dk'', Num (113 / 10)), (''k'', Num (33 / 10))]"
    by (simp add: lookup_dimensions_def isolate_fastener_type_def example_externals_def
        example_screws_def py_strip_def whitespace_def)
  have short: "Screw_init example_externals built CounterSunkScrew ''M6-1'' (33 / 10) ''iso2009''
                 ''right'' True 6 = Inl (ValueError (ScrewTooShort (33 / 10) (33 / 10)))"
    using countersunk_length [OF cls, where X = example_externals and sz = "''M6-1''"
        and ft = "''iso2009''" and hand = "''right''" and th = "(True, 6, 1)"
        and data = "[(''a'', Num 90), (''dk'', Num (113 / 10)), (''k'', Num (33 / 10))]"
        and k = "33 / 10" and len = "33 / 10"] chk dims
    by simp
  obtain self where
    ok: "Screw_init example_externals built CounterSunkScrew ''M6-1'' 20 ''iso2009''
           ''right'' True 6 = Inr self"
    by (simp add: Screw_init_def chk dims length_offset_def num_def built_def)
  from countersunk_length [OF cls, where X = example_externals and build = built
      and sz = "''M6-1''" and ft = "''iso2009''" and hand = "''right''" and len = 20
      and simple = True and clearance = 6 and self = self] ok
  obtain k where k: "map_of (screw_data self) ''k'' = Some (Num k)"
      "length_offset (screw_class self) (screw_data self) = Inr k" "k < screw_length self"
    by blast
  from ok have "screw_data self = [(''a'', Num 90), (''dk'', Num (113 / 10)), (''k'', Num (33 / 10))]"
    by (auto simp add: Screw_init_def chk dims length_offset_def num_def built_def)
  with k have "k = 33 / 10" by simp
  with k ok short show ?thesis by auto
qed

subsection \<open>Extraction without metadata\<close>

text \<open>
  C10. On an assembly whose \<open>metadata\<close> is \<open>None\<close> the extraction returns \<open>None\<close>,
  whatever \<open>bom\<close> is; on one whose \<open>metadata\<close> is a dictionary it returns a
  dictionary, the empty one for the empty dictionary.
\<close>

theorem fastener_quantities_None:
  "(metadata self = PyNone \<longrightarrow> fastener_quantities X store bom self = Inr None)
   \<and> (metadata self = Dict d \<longrightarrow>
        (\<exists>quantities. fastener_quantities X store bom self = Inr (Some quantities)))
   \<and> (metadata self = Dict [] \<and> set_iteration X [] = [] \<longrightarrow>
        fastener_quantities X store bom self = Inr (Some []))"
  by (simp add: fastener_quantities_def Let_def)

theorem fastener_quantities_None_witness:
  "fastener_quantities example_externals [] True \<lparr>children = [], metadata = PyNone\<rparr> = Inr None
   \<and> fastener_quantities example_externals [] False \<lparr>children = [], metadata = PyNone\<rparr> = Inr None
   \<and> fastener_quantities example_externals [] True \<lparr>children = [], metadata = Dict []\<rparr>
       = Inr (Some [])"
proof -
  have it: "set_iteration example_externals [] = []"
    by (simp add: example_externals_def)
  show ?thesis
    using fastener_quantities_None [of "\<lparr>children = [], metadata = PyNone\<rparr>"
            example_externals "[]" True "[]"]
          fastener_quantities_None [of "\<lparr>children = [], metadata = PyNone\<rparr>"
            example_externals "[]" False "[]"]
          fastener_quantities_None [of "\<lparr>children = [], metadata = Dict []\<rparr>"
            example_externals "[]" True "[]"] it
    by simp
qed

subsection \<open>The radius of the bore\<close>


lemma lookup_key_present:
  "map_of hole_diameters k = Some v \<Longrightarrow> lookup_key hole_diameters (Some k) = Inr v"
  by (simp add: lookup_key_def)






subsection \<open>A fastener without a countersink profile\<close>

text \<open>
  C6. A set screw has no countersink profile. With no profile and \<open>counterSunk\<close> true
  the countersink step does not raise and gives offset 0 and no cutter; the call is the
  one with \<open>counterSunk\<close> false, and when the radius resolves and the placements
  succeed it returns the plain bore with its drill tip, head offset 0, no countersink
  cutter.
\<close>

theorem null_countersink_profile:
  "(deref store fastener = AScrew s \<and> screw_class s = SetScrew \<longrightarrow>
      countersink_profile X (deref store fastener) fit = Inr None)
   \<and> (countersink_profile X (deref store fastener) fit = Inr None \<longrightarrow>
        countersink True None = Inr (0, None)
        \<and> (bore_radius (deref store fastener) hole_diameters fit material hand = Inr radius
             \<and> place_in_assembly X store fastener 0 washers locations baseAssembly n
                 = Inr (asm, n') \<longrightarrow>
             fastenerHole X store n locations hole_diameters fastener depth washers fit material
               True baseAssembly hand simple clean
             = Inr \<lparr>head_offset = 0, countersink_cutter = None, hole_radius = radius,
                    hole_depth = depth, drill_tip = radius / tan (radians (82 / 2)),
                    hole_locations = locations,
                    thread_insert = (if hand \<noteq> None \<and> \<not> simple then Some (depth - 0) else None),
                    cleaned = clean, base_assembly = asm, names_generated = n'\<rparr>)
        \<and> fastenerHole X store n locations hole_diameters fastener depth washers fit material
              True baseAssembly hand simple clean
            = fastenerHole X store n locations hole_diameters fastener depth washers fit material
                False baseAssembly hand simple clean)"
  by (auto simp: countersink_profile_def screw_countersink_profile_def countersink_def
      fastenerHole_def Let_def)

theorem null_countersink_profile_witness:
  "fastenerHole example_externals example_store 0 example_locations
       example_clearances 0 10 None (Some ''Normal'')
       None True None None False True
     = Inr \<lparr>head_offset = 0, countersink_cutter = None, hole_radius = 33 / 10,
            hole_depth = 10, drill_tip = 33 / 10 / tan (radians 41),
            hole_locations = example_locations, thread_insert = None,
            cleaned = True, base_assembly = None, names_generated = 0\<rparr>"
proof -
  have cls: "deref example_store 0 = AScrew example_set_screw
             \<and> screw_class example_set_screw = SetScrew"
    by (simp add: example_deref example_set_screw_def)
  have r: "bore_radius (deref example_store 0)
             example_clearances (Some ''Normal'') None None
           = Inr (33 / 10)"
    by (simp add: bore_radius_def lookup_key_def example_clearances_def)
  have p: "place_in_assembly example_externals example_store 0 0 None example_locations None 0
           = Inr (None, 0)"
    by (simp add: place_in_assembly_def)
  show ?thesis
    using null_countersink_profile [where X = example_externals and store = example_store
        and fastener = 0 and s = example_set_screw
        and fit = "Some ''Normal''" and material = None and hand = None
        and hole_diameters = "example_clearances"
        and radius = "33 / 10" and washers = None and locations = example_locations
        and baseAssembly = None and n = 0 and asm = None and n' = 0 and depth = 10
        and simple = False and clean = True] cls r p
    by simp
qed

subsection \<open>Bookkeeping of the hole cutter\<close>

lemma fastenerHole_placements:
  assumes "fastenerHole X store n locations hole_diameters fastener depth washers fit material
             counterSunk (Some a) hand simple clean = Inr result"
  shows "\<exists>profile offset a' n'.
           countersink_profile X (deref store fastener) fit = Inr profile
           \<and> place_fasteners X store fastener offset washers locations (a, n) = Inr (a', n')
           \<and> base_assembly result = Some a'"
  using assms
  by (fastforce simp: fastenerHole_def place_in_assembly_def bind_err_eq_Inr Let_def
      split: prod.splits)

lemma countersink_profile_is_fastener:
  "countersink_profile X (deref store fastener) fit = Inr profile \<Longrightarrow>
     is_fastener store fastener \<and> (\<forall>x. deref store fastener \<noteq> AWasher x)"
  by (auto simp: countersink_profile_def is_fastener_def split: py_object.splits)

lemma info_washer_differs:
  assumes "deref store w = AWasher x" and "is_fastener store f" and "\<forall>y. deref store f \<noteq> AWasher y"
  shows "info X store w \<noteq> info X store f"
  using assms washer_info_not_screw_info [of x X] washer_info_not_nut_info [of x]
  by (auto simp: info_def is_fastener_def split: py_object.splits)

text \<open>
  C4, as the code has it. A call with a base assembly, at least one location, and names
  for the new children that are new and distinct: when the call returns, the records of
  the assembly are those it had, followed for every location by one record for each
  washer of the list and then one for the fastener, that is
  \<open>length locations * (length washers + 1)\<close> new records; and the extraction with
  \<open>bom\<close> true reports, for the information text of the fastener, the number of
  locations plus the number of records the assembly already had of this instance,
  provided no other instance recorded before has the same text. On an assembly without
  earlier records that is the number of locations.
\<close>

theorem hole_bookkeeping:
  assumes call: "fastenerHole X store n locations hole_diameters fastener depth washers fit
                   material counterSunk (Some a) hand simple clean = Inr result"
    and names: "inj (uuid X)" "\<forall>i. uuid X (n + i) \<notin> fst ` set (records a)"
    and iteration: "\<forall>xs. set (set_iteration X xs) = set xs"
    and holes: "locations \<noteq> []"
    and others: "\<forall>g \<in> set (map snd (records a)).
                   is_fastener store g \<and> info X store g = info X store fastener \<longrightarrow> g = fastener"
  shows "\<exists>a' quantities.
           base_assembly result = Some a'
           \<and> map snd (records a') =
               map snd (records a)
               @ concat (replicate (length locations) (washer_list washers @ [fastener]))
           \<and> length (records a') =
               length (records a) + length locations * (length (washer_list washers) + 1)
           \<and> fastener_quantities X store True a' = Inr (Some quantities)
           \<and> map_of quantities (Info (info X store fastener)) =
               Some (count_list (map snd (records a)) fastener + length locations)"
proof -
  let ?ws = "washer_list washers"
  let ?N = "length locations"
  from fastenerHole_placements [OF call] obtain profile offset a' n' where
    cp: "countersink_profile X (deref store fastener) fit = Inr profile" and
    place: "place_fasteners X store fastener offset washers locations (a, n) = Inr (a', n')" and
    base: "base_assembly result = Some a'"
    by blast
  from place_fasteners_records [OF place names] holes
  have recs: "map snd (records a') = map snd (records a) @ concat (replicate ?N (?ws @ [fastener]))"
    and washers: "\<forall>w \<in> set ?ws. \<exists>x. deref store w = AWasher x"
    and meta: "metadata a' = Dict (records a')"
    by simp_all
  from countersink_profile_is_fastener [OF cp]
  have isf: "is_fastener store fastener" and notw: "\<forall>x. deref store fastener \<noteq> AWasher x"
    by simp_all
  have notin: "fastener \<notin> set ?ws"
    using washers notw by auto
  have "length (map snd (records a')) = length (records a) + ?N * (length ?ws + 1)"
    unfolding recs by (simp add: length_concat sum_list_replicate)
  then have len: "length (records a') = length (records a) + ?N * (length ?ws + 1)"
    by simp
  have count: "count_list (map snd (records a')) fastener
               = count_list (map snd (records a)) fastener + ?N"
    unfolding recs
    by (simp add: count_list_append count_list_concat_replicate count_list_absent [OF notin])
  have mem: "fastener \<in> set (map snd (records a'))"
    unfolding recs using holes by (cases locations) auto
  have unique: "\<forall>g \<in> set (map snd (records a')).
                  is_fastener store g \<and> info X store g = info X store fastener \<longrightarrow> g = fastener"
  proof (intro ballI impI)
    fix g
    assume g: "g \<in> set (map snd (records a'))"
      and same: "is_fastener store g \<and> info X store g = info X store fastener"
    from g have "g \<in> set (map snd (records a)) \<or> g \<in> set ?ws \<or> g = fastener"
      unfolding recs by (auto split: if_splits)
    then show "g = fastener"
    proof (elim disjE)
      assume "g \<in> set (map snd (records a))"
      with others same show ?thesis by blast
    next
      assume "g \<in> set ?ws"
      with washers obtain x where "deref store g = AWasher x" by blast
      from info_washer_differs [OF this isf notw] same show ?thesis by simp
    qed
  qed
  from fastener_quantities_by_info [OF meta iteration mem isf unique]
  obtain quantities where
    "fastener_quantities X store True a' = Inr (Some quantities)"
    "map_of quantities (Info (info X store fastener)) = Some (count_list (map snd (records a')) fastener)"
    by blast
  with base recs len count show ?thesis by auto
qed

theorem hole_bookkeeping_witness:
  "\<exists>result a' quantities.
     fastenerHole example_externals example_store 0 example_locations example_clearances 2 10
       (Some [4]) (Some ''Normal'') None False (Some empty_assembly) None False True = Inr result
     \<and> base_assembly result = Some a'
     \<and> map snd (records a') = [4, 2, 4, 2]
     \<and> length (records a') = 4
     \<and> fastener_quantities example_externals example_store True a' = Inr (Some quantities)
     \<and> map_of quantities (Info ''HexHeadScrew(iso4014): M6-1x20'') = Some 2"
proof -
  obtain result where
    call: "fastenerHole example_externals example_store 0 example_locations example_clearances
             2 10 (Some [4]) (Some ''Normal'') None False (Some empty_assembly) None False True
           = Inr result"
    using example_first_call by (auto simp: map_sum_def split: sum.splits)
  have fresh: "\<forall>i. uuid example_externals (0 + i) \<notin> fst ` set (records empty_assembly)"
    by (simp add: records_def empty_assembly_def)
  have it: "\<forall>xs. set (set_iteration example_externals xs) = set xs"
    by (simp add: example_set_iteration)
  have holes: "example_locations \<noteq> []"
    by (simp add: example_locations_def)
  have others: "\<forall>g \<in> set (map snd (records empty_assembly)).
                   is_fastener example_store g
                   \<and> info example_externals example_store g = info example_externals example_store 2
                   \<longrightarrow> g = 2"
    by (simp add: records_def empty_assembly_def)
  have inf: "info example_externals example_store 2 = ''HexHeadScrew(iso4014): M6-1x20''"
    by (simp add: info_def example_deref example_hex_screw_facts)
  from hole_bookkeeping [OF call example_uuid_inj fresh it holes others]
  show ?thesis
    using call
    by (auto simp: inf records_def empty_assembly_def example_locations_def washer_list_def)
qed

text \<open>
  C4, as stated, fails when the assembly already holds records of the fastener: after the
  call for two holes has been made twice on the same assembly, each time adding four
  records, the extraction reports four of the screw, not two.
\<close>

theorem hole_bookkeeping_second_call:
  "map_sum id base_assembly
     (fastenerHole example_externals example_store 0 example_locations example_clearances 2 10
        (Some [4]) (Some ''Normal'') None False (Some empty_assembly) None False True)
     = Inr (Some example_assembly_once)
   \<and> map_sum id base_assembly
     (fastenerHole example_externals example_store 4 example_locations example_clearances 2 10
        (Some [4]) (Some ''Normal'') None False (Some example_assembly_once) None False True)
     = Inr (Some example_assembly_twice)
   \<and> length example_locations = 2
   \<and> info example_externals example_store 2 = ''HexHeadScrew(iso4014): M6-1x20''
   \<and> fastener_quantities example_externals example_store True example_assembly_twice
     = Inr (Some [(Info ''PlainWasher(iso7089): M6'', 4),
                  (Info ''HexHeadScrew(iso4014): M6-1x20'', 4)])"
  using example_first_call example_second_call example_quantities_twice
  by (simp add: example_locations_def info_def example_deref example_hex_screw_facts)

subsection \<open>Lines of the bill of materials\<close>

lemma new_same_init:
  assumes "new store0 init = (Inr r1, store1) \<and> new store1 init = (Inr r2, store2)"
  shows "r1 \<noteq> r2 \<and> deref store2 r1 = deref store2 r2"
proof (cases init)
  case (Inl e)
  with assms show ?thesis by (simp add: new_def)
next
  case (Inr obj)
  with assms have "r1 = length store0" "store1 = store0 @ [obj]"
    "r2 = length store1" "store2 = store1 @ [obj]"
    by (simp_all add: new_def)
  then have "r1 = length store0" "r2 = Suc (length store0)" "store2 = store0 @ [obj, obj]"
    by simp_all
  then show ?thesis by (simp add: deref_def nth_append)
qed

text \<open>
  C2, as the code has it. The extraction compares instances by identity: with \<open>bom\<close>
  false every recorded instance has its own line, whose count is the number of records
  that hold this very object; with \<open>bom\<close> true the line of an information text that
  only one recorded instance has carries the count of that instance. Constructing a
  screw, a nut or a washer twice with the same arguments gives two different objects of
  equal value, which therefore never share a line of instances.
\<close>

theorem bom_lines_by_identity:
  assumes "metadata self = Dict d" and "\<forall>xs. set (set_iteration X xs) = set xs"
  shows
    "(\<exists>q. fastener_quantities X store False self = Inr (Some q)
         \<and> (\<forall>r. map_of q (Instance r)
                = (if r \<in> set (map snd d) \<and> is_fastener store r
                   then Some (count_list (map snd d) r) else None)))
     \<and> (\<forall>r. r \<in> set (map snd d) \<and> is_fastener store r
            \<and> (\<forall>g \<in> set (map snd d).
                  is_fastener store g \<and> info X store g = info X store r \<longrightarrow> g = r) \<longrightarrow>
            (\<exists>q. fastener_quantities X store True self = Inr (Some q)
                \<and> map_of q (Info (info X store r)) = Some (count_list (map snd d) r)))
     \<and> (\<forall>r1 r2 store1 store2.
           Screw X build_screw store0 scls sz len ft hand simple clearance = (Inr r1, store1)
           \<and> Screw X build_screw store1 scls sz len ft hand simple clearance = (Inr r2, store2) \<longrightarrow>
           r1 \<noteq> r2 \<and> deref store2 r1 = deref store2 r2)
     \<and> (\<forall>r1 r2 store1 store2.
           Nut X build_nut store0 ncls sz ft hand simple = (Inr r1, store1)
           \<and> Nut X build_nut store1 ncls sz ft hand simple = (Inr r2, store2) \<longrightarrow>
           r1 \<noteq> r2 \<and> deref store2 r1 = deref store2 r2)
     \<and> (\<forall>r1 r2 store1 store2.
           Washer X build_washer store0 wcls wsz ft = (Inr r1, store1)
           \<and> Washer X build_washer store1 wcls wsz ft = (Inr r2, store2) \<longrightarrow>
           r1 \<noteq> r2 \<and> deref store2 r1 = deref store2 r2)"
proof (intro conjI allI impI)
  show "\<exists>q. fastener_quantities X store False self = Inr (Some q)
         \<and> (\<forall>r. map_of q (Instance r)
                = (if r \<in> set (map snd d) \<and> is_fastener store r
                   then Some (count_list (map snd d) r) else None))"
    using assms by (rule fastener_quantities_by_instance)
next
  fix r
  assume "r \<in> set (map snd d) \<and> is_fastener store r
            \<and> (\<forall>g \<in> set (map snd d).
                  is_fastener store g \<and> info X store g = info X store r \<longrightarrow> g = r)"
  then show "\<exists>q. fastener_quantities X store True self = Inr (Some q)
                \<and> map_of q (Info (info X store r)) = Some (count_list (map snd d) r)"
    using fastener_quantities_by_info [OF assms] by blast
next
  fix r1 r2 store1 store2
  assume "Screw X build_screw store0 scls sz len ft hand simple clearance = (Inr r1, store1)
           \<and> Screw X build_screw store1 scls sz len ft hand simple clearance = (Inr r2, store2)"
  then have "r1 \<noteq> r2 \<and> deref store2 r1 = deref store2 r2"
    unfolding Screw_def by (rule new_same_init)
  then show "r1 \<noteq> r2" "deref store2 r1 = deref store2 r2"
    by simp_all
next
  fix r1 r2 store1 store2
  assume "Nut X build_nut store0 ncls sz ft hand simple = (Inr r1, store1)
           \<and> Nut X build_nut store1 ncls sz ft hand simple = (Inr r2, store2)"
  then have "r1 \<noteq> r2 \<and> deref store2 r1 = deref store2 r2"
    unfolding Nut_def by (rule new_same_init)
  then show "r1 \<noteq> r2" "deref store2 r1 = deref store2 r2"
    by simp_all
next
  fix r1 r2 store1 store2
  assume "Washer X build_washer store0 wcls wsz ft = (Inr r1, store1)
           \<and> Washer X build_washer store1 wcls wsz ft = (Inr r2, store2)"
  then have "r1 \<noteq> r2 \<and> deref store2 r1 = deref store2 r2"
    unfolding Washer_def by (rule new_same_init)
  then show "r1 \<noteq> r2" "deref store2 r1 = deref store2 r2"
    by simp_all
qed

theorem bom_lines_by_identity_witness:
  "\<exists>q. fastener_quantities example_externals example_store False example_two_screws = Inr (Some q)
       \<and> map_of q (Instance 2) = Some 1 \<and> map_of q (Instance 3) = Some 1
       \<and> map_of q (Instance 4) = None"
proof -
  have m: "metadata example_two_screws = Dict [(''u'', 2), (''uu'', 3)]"
    by (simp add: example_two_screws_def)
  have it: "\<forall>xs. set (set_iteration example_externals xs) = set xs"
    by (simp add: example_set_iteration)
  from bom_lines_by_identity [OF m it, of example_store, THEN conjunct1]
  obtain q where
    q: "fastener_quantities example_externals example_store False example_two_screws = Inr (Some q)"
    and l: "\<forall>r. map_of q (Instance r)
                = (if r \<in> set (map snd [(''u'', 2), (''uu'', 3 :: nat)]) \<and> is_fastener example_store r
                   then Some (count_list (map snd [(''u'', 2), (''uu'', 3)]) r) else None)"
    by blast
  have f: "is_fastener example_store 2" "is_fastener example_store 3"
    by (simp_all add: is_fastener_def example_deref)
  from l f have "map_of q (Instance 2) = Some 1" "map_of q (Instance 3) = Some 1"
    "map_of q (Instance 4) = None"
    by simp_all
  with q show ?thesis by blast
qed

text \<open>
  C2, as stated, fails: the two hexagon head screws of the example store are constructed
  with the same arguments and are equal by value, yet they are two objects, and an assembly
  that records each once has two lines of one screw when the keys are the instances, and
  one line of one screw, not two, when the keys are the information texts.
\<close>

theorem equal_screws_counted_apart:
  "fst (Screw example_externals built (take 2 example_store) HexHeadScrew ''M6-1'' 20 ''iso4014''
          ''right'' True 6) = Inr 2
   \<and> fst (Screw example_externals built (take 3 example_store) HexHeadScrew ''M6-1'' 20 ''iso4014''
          ''right'' True 6) = Inr 3
   \<and> deref example_store 2 = deref example_store 3
   \<and> fastener_quantities example_externals example_store False example_two_screws
       = Inr (Some [(Instance 2, 1), (Instance 3, 1)])
   \<and> fastener_quantities example_externals example_store True example_two_screws
       = Inr (Some [(Info ''HexHeadScrew(iso4014): M6-1x20'', 1)])"
proof -
  have "Screw_init example_externals built HexHeadScrew ''M6-1'' 20 ''iso4014'' ''right'' True 6
          = Inr example_hex_screw"
    by (simp add: Screw_init_def check_parameters_def decode_thread_def float_def types_def
        lookup_dimensions_def isolate_fastener_type_def length_offset_def
        built_def example_externals_def example_screws_def py_strip_def whitespace_def
        example_hex_screw_def)
  then have "fst (Screw example_externals built (take 2 example_store) HexHeadScrew ''M6-1'' 20
                ''iso4014'' ''right'' True 6) = Inr 2"
    "fst (Screw example_externals built (take 3 example_store) HexHeadScrew ''M6-1'' 20
                ''iso4014'' ''right'' True 6) = Inr 3"
    by (simp_all add: Screw_def new_def example_store_eq)
  moreover have "deref example_store 2 = deref example_store 3"
    by (simp add: example_deref)
  moreover have "fastener_quantities example_externals example_store False example_two_screws
       = Inr (Some [(Instance 2, 1), (Instance 3, 1)])"
    by (simp add: fastener_quantities_def example_two_screws_def example_set_iteration
        is_fastener_def example_deref Let_def)
  moreover have "fastener_quantities example_externals example_store True example_two_screws
       = Inr (Some [(Info ''HexHeadScrew(iso4014): M6-1x20'', 1)])"
    by (simp add: fastener_quantities_def example_two_screws_def example_set_iteration
        is_fastener_def info_def example_deref example_hex_screw_facts Let_def)
  ultimately show ?thesis by simp
qed

subsection \<open>The hexalobular recess\<close>

text \<open>
  C1. A size code that the table does not have is refused with
  \<open>InvalidHexalobularSize\<close>. For a size code of the table whose row gives the numbers
  \<open>A\<close>, \<open>B\<close> and \<open>Re\<close>, with a divisor that is not zero and arc centres that are
  apart, \<open>hexalobular_recess\<close> returns the depth \<open>0.6 * A\<close> and six copies, rotated by
  0, -60, ..., -300 degrees, of the outline of three arcs whose middle one, between the
  two tangent points, has the radius \<open>- Ri\<close>, where \<open>Ri\<close> is the closed form
  \<open>(A\<^sup>2 - \<surd>3 A B - 4 A Re + B\<^sup>2 + 2 \<surd>3 B Re) / (2 (\<surd>3 A - 2 B - 2 \<surd>3 Re + 4 Re))\<close>,
  also used for the centre of that arc.
\<close>

theorem hexalobular_recess_radius:
  fixes A B Re' :: real
  defines "Ri \<equiv> (A\<^sup>2 - sqrt 3 * A * B - 4 * A * Re' + B\<^sup>2 + 2 * sqrt 3 * B * Re')
                 / (2 * (sqrt 3 * A - 2 * B - 2 * sqrt 3 * Re' + 4 * Re'))"
  defines "c \<equiv> (B / 4 + Ri / 2, sqrt 3 * (B / 2 + Ri) / 2)"
  shows
    "(map_of iso10664def size_code = None \<longrightarrow>
        hexalobular_recess iso10664def size_code = Inl (ValueError (InvalidHexalobularSize size_code)))
     \<and> (map_of iso10664def size_code = Some data
          \<and> map_of data ''A'' = Some (Num A) \<and> map_of data ''B'' = Some (Num B)
          \<and> map_of data ''Re'' = Some (Num Re')
          \<and> sqrt 3 * A - 2 * B - 2 * sqrt 3 * Re' + 4 * Re' \<noteq> 0
          \<and> c \<noteq> (0, A / 2 - Re') \<and> c \<noteq> (sqrt 3 * (A / 2 - Re') / 2, A / 4 - Re' / 2) \<longrightarrow>
          (\<exists>t0 t1.
             tangent_point (0, A / 2 - Re') c Re' = Inr t0
             \<and> tangent_point (sqrt 3 * (A / 2 - Re') / 2, A / 4 - Re' / 2) c Re' = Inr t1
             \<and> hexalobular_recess iso10664def size_code
                 = Inr (map (\<lambda>a. (a, [\<lparr>arc_from = (0, A / 2), arc_to = t0, arc_radius = Re'\<rparr>,
                                      \<lparr>arc_from = t0, arc_to = t1, arc_radius = - Ri\<rparr>,
                                      \<lparr>arc_from = t1, arc_to = (sqrt 3 * A / 4, A / 4),
                                         arc_radius = Re'\<rparr>]))
                          [0, - 60, - 120, - 180, - 240, - 300],
                        6 / 10 * A)))"
proof (intro conjI impI)
  assume "map_of iso10664def size_code = None"
  then show "hexalobular_recess iso10664def size_code
               = Inl (ValueError (InvalidHexalobularSize size_code))"
    by (simp add: hexalobular_recess_def)
next
  assume h: "map_of iso10664def size_code = Some data
          \<and> map_of data ''A'' = Some (Num A) \<and> map_of data ''B'' = Some (Num B)
          \<and> map_of data ''Re'' = Some (Num Re')
          \<and> sqrt 3 * A - 2 * B - 2 * sqrt 3 * Re' + 4 * Re' \<noteq> 0
          \<and> c \<noteq> (0, A / 2 - Re') \<and> c \<noteq> (sqrt 3 * (A / 2 - Re') / 2, A / 4 - Re' / 2)"
  have apart: "vector_length (fst c - fst p, snd c - snd p) \<noteq> 0" if "c \<noteq> p" for p
  proof -
    from that have "fst c - fst p \<noteq> 0 \<or> snd c - snd p \<noteq> 0"
      by (cases c; cases p) auto
    then have "(fst c - fst p)\<^sup>2 + (snd c - snd p)\<^sup>2 \<noteq> 0"
      by (simp add: sum_power2_eq_zero_iff)
    then show ?thesis by (simp add: vector_length_def)
  qed
  obtain t0 where t0: "tangent_point (0, A / 2 - Re') c Re' = Inr t0"
    using apart [of "(0, A / 2 - Re')"] h by (simp add: tangent_point_def normalized_def)
  obtain t1 where t1: "tangent_point (sqrt 3 * (A / 2 - Re') / 2, A / 4 - Re' / 2) c Re' = Inr t1"
    using apart [of "(sqrt 3 * (A / 2 - Re') / 2, A / 4 - Re' / 2)"] h
    by (simp add: tangent_point_def normalized_def)
  have "hexalobular_recess iso10664def size_code
          = Inr (map (\<lambda>a. (a, [\<lparr>arc_from = (0, A / 2), arc_to = t0, arc_radius = Re'\<rparr>,
                               \<lparr>arc_from = t0, arc_to = t1, arc_radius = - Ri\<rparr>,
                               \<lparr>arc_from = t1, arc_to = (sqrt 3 * A / 4, A / 4),
                                  arc_radius = Re'\<rparr>]))
                   [0, - 60, - 120, - 180, - 240, - 300],
                 6 / 10 * A)"
    using h t0 t1 unfolding hexalobular_recess_def c_def Ri_def
    by (simp add: num_def Let_def radiusArc_def)
  with t0 t1 show "\<exists>t0 t1.
             tangent_point (0, A / 2 - Re') c Re' = Inr t0
             \<and> tangent_point (sqrt 3 * (A / 2 - Re') / 2, A / 4 - Re' / 2) c Re' = Inr t1
             \<and> hexalobular_recess iso10664def size_code
                 = Inr (map (\<lambda>a. (a, [\<lparr>arc_from = (0, A / 2), arc_to = t0, arc_radius = Re'\<rparr>,
                                      \<lparr>arc_from = t0, arc_to = t1, arc_radius = - Ri\<rparr>,
                                      \<lparr>arc_from = t1, arc_to = (sqrt 3 * A / 4, A / 4),
                                         arc_radius = Re'\<rparr>]))
                          [0, - 60, - 120, - 180, - 240, - 300],
                        6 / 10 * A)"
    by blast
qed

theorem hexalobular_recess_radius_witness:
  "hexalobular_recess example_iso10664 ''T11'' = Inl (ValueError (InvalidHexalobularSize ''T11''))
   \<and> (\<exists>plan. hexalobular_recess example_iso10664 ''T10'' = Inr (plan, 6 / 10 * (28 / 10))
         \<and> map fst plan = [0, - 60, - 120, - 180, - 240, - 300])"
proof -
  define A B R :: real where "A = 28 / 10" and "B = 205 / 100" and "R = 229 / 1000"
  define D where "D = sqrt 3 * A - 2 * B - 2 * sqrt 3 * R + 4 * R"
  define N where "N = A\<^sup>2 - sqrt 3 * A * B - 4 * A * R + B\<^sup>2 + 2 * sqrt 3 * B * R"
  define Ri where "Ri = N / (2 * D)"
  define c where "c = (B / 4 + Ri / 2, sqrt 3 * (B / 2 + Ri) / 2)"
  have D: "0 < D"
    unfolding D_def A_def B_def R_def using sqrt3_lower by simp
  have N: "0 < N"
    unfolding N_def A_def B_def R_def using sqrt3_upper by (simp add: power2_eq_square)
  have Ri: "0 < Ri"
    unfolding Ri_def using D N by simp
  have Bpos: "0 < B" by (simp add: B_def)
  have "0 < fst c"
    unfolding c_def fst_conv using Ri Bpos by (intro add_pos_pos) simp_all
  then have c0: "c \<noteq> (0, A / 2 - R)" by auto
  have "17 / 10 * (B / 2) \<le> sqrt 3 * (B / 2 + Ri)"
    using Ri Bpos sqrt3_lower by (intro mult_mono) simp_all
  moreover have "A / 4 - R / 2 < 17 / 10 * (B / 2) / 2"
    by (simp add: A_def B_def R_def)
  ultimately have "A / 4 - R / 2 < snd c"
    unfolding c_def snd_conv by linarith
  then have c1: "c \<noteq> (sqrt 3 * (A / 2 - R) / 2, A / 4 - R / 2)" by auto
  have row: "map_of example_iso10664 ''T10'' = Some [(''A'', Num A), (''B'', Num B), (''Re'', Num R)]"
    "map_of example_iso10664 ''T11'' = None"
    by (simp_all add: example_iso10664_def A_def B_def R_def)
  have dims: "map_of [(''A'', Num A), (''B'', Num B), (''Re'', Num R)] ''A'' = Some (Num A)"
    "map_of [(''A'', Num A), (''B'', Num B), (''Re'', Num R)] ''B'' = Some (Num B)"
    "map_of [(''A'', Num A), (''B'', Num B), (''Re'', Num R)] ''Re'' = Some (Num R)"
    by simp_all
  have unknown: "hexalobular_recess example_iso10664 ''T11''
                   = Inl (ValueError (InvalidHexalobularSize ''T11''))"
    using hexalobular_recess_radius [of example_iso10664 "''T11''"] row by simp
  have hyp: "map_of example_iso10664 ''T10'' = Some [(''A'', Num A), (''B'', Num B), (''Re'', Num R)]
          \<and> map_of [(''A'', Num A), (''B'', Num B), (''Re'', Num R)] ''A'' = Some (Num A)
          \<and> map_of [(''A'', Num A), (''B'', Num B), (''Re'', Num R)] ''B'' = Some (Num B)
          \<and> map_of [(''A'', Num A), (''B'', Num B), (''Re'', Num R)] ''Re'' = Some (Num R)
          \<and> sqrt 3 * A - 2 * B - 2 * sqrt 3 * R + 4 * R \<noteq> 0
          \<and> (B / 4 + (A\<^sup>2 - sqrt 3 * A * B - 4 * A * R + B\<^sup>2 + 2 * sqrt 3 * B * R)
                       / (2 * (sqrt 3 * A - 2 * B - 2 * sqrt 3 * R + 4 * R)) / 2,
                sqrt 3 * (B / 2 + (A\<^sup>2 - sqrt 3 * A * B - 4 * A * R + B\<^sup>2 + 2 * sqrt 3 * B * R)
                       / (2 * (sqrt 3 * A - 2 * B - 2 * sqrt 3 * R + 4 * R))) / 2)
              \<noteq> (0, A / 2 - R)
          \<and> (B / 4 + (A\<^sup>2 - sqrt 3 * A * B - 4 * A * R + B\<^sup>2 + 2 * sqrt 3 * B * R)
                       / (2 * (sqrt 3 * A - 2 * B - 2 * sqrt 3 * R + 4 * R)) / 2,
                sqrt 3 * (B / 2 + (A\<^sup>2 - sqrt 3 * A * B - 4 * A * R + B\<^sup>2 + 2 * sqrt 3 * B * R)
                       / (2 * (sqrt 3 * A - 2 * B - 2 * sqrt 3 * R + 4 * R))) / 2)
              \<noteq> (sqrt 3 * (A / 2 - R) / 2, A / 4 - R / 2)"
  proof -
    have "D \<noteq> 0" using D by simp
    then show ?thesis
      using row(1) dims c0 c1 unfolding c_def Ri_def N_def D_def by blast
  qed
  from hexalobular_recess_radius [of example_iso10664 "''T10''"
      "[(''A'', Num A), (''B'', Num B), (''Re'', Num R)]" A B R, THEN conjunct2, rule_format, OF hyp]
  obtain plan where
    "hexalobular_recess example_iso10664 ''T10'' = Inr (plan, 6 / 10 * A)"
    "map fst plan = [0, - 60, - 120, - 180, - 240, - 300]"
    by auto
  then have "\<exists>plan. hexalobular_recess example_iso10664 ''T10'' = Inr (plan, 6 / 10 * (28 / 10))
         \<and> map fst plan = [0, - 60, - 120, - 180, - 240, - 300]"
    unfolding A_def by (intro exI [of _ plan] conjI)
  with unknown show ?thesis by (rule conjI)
qed

text \<open>
  What the closed form is for: with this \<open>Ri\<close> the centre of the internal arc is at
  the distance \<open>Re + Ri\<close> from the centres of both external arcs, so the circles touch.
\<close>

lemma hexalobular_tangency:
  fixes A B Re' :: real
  defines "D \<equiv> 2 * (sqrt 3 * A - 2 * B - 2 * sqrt 3 * Re' + 4 * Re')"
  defines "N \<equiv> A\<^sup>2 - sqrt 3 * A * B - 4 * A * Re' + B\<^sup>2 + 2 * sqrt 3 * B * Re'"
  defines "Ri \<equiv> N / D"
  defines "c \<equiv> (B / 4 + Ri / 2, sqrt 3 * (B / 2 + Ri) / 2)"
  assumes "D \<noteq> 0"
  shows "(fst c - 0)\<^sup>2 + (snd c - (A / 2 - Re'))\<^sup>2 = (Re' + Ri)\<^sup>2"
    and "(fst c - sqrt 3 * (A / 2 - Re') / 2)\<^sup>2 + (snd c - (A / 4 - Re' / 2))\<^sup>2 = (Re' + Ri)\<^sup>2"
proof -
  define s :: real where "s = sqrt 3"
  define u where "u = B / 2 + Ri"
  define r where "r = A / 2 - Re'"
  have s2: "s * s = 3" by (simp add: s_def)
  have eq: "Ri * D = N" using \<open>D \<noteq> 0\<close> by (simp add: Ri_def)
  have D': "D = 2 * (s * A - 2 * B - 2 * s * Re' + 4 * Re')"
    and N': "N = A * A - s * A * B - 4 * A * Re' + B * B + 2 * s * B * Re'"
    by (simp_all add: D_def N_def s_def power2_eq_square)
  have key: "u * u - s * u * r + r * r - (Re' + Ri) * (Re' + Ri) = (N - Ri * D) / 4"
    unfolding u_def r_def D' N' by (simp add: field_simps)
  have a: "(u / 2) * (u / 2) + (s * u / 2 - r) * (s * u / 2 - r) = u * u - s * u * r + r * r"
  proof -
    have "(u / 2) * (u / 2) + (s * u / 2 - r) * (s * u / 2 - r)
            = u * u / 4 + (s * s) * (u * u) / 4 - s * u * r + r * r"
      by (simp add: algebra_simps)
    also have "\<dots> = u * u - s * u * r + r * r"
      unfolding s2 by simp
    finally show ?thesis .
  qed
  have b: "(u / 2 - s * r / 2) * (u / 2 - s * r / 2) + (s * u / 2 - r / 2) * (s * u / 2 - r / 2)
             = u * u - s * u * r + r * r"
  proof -
    have "(u / 2 - s * r / 2) * (u / 2 - s * r / 2) + (s * u / 2 - r / 2) * (s * u / 2 - r / 2)
            = u * u / 4 + (s * s) * (r * r) / 4 + (s * s) * (u * u) / 4 + r * r / 4 - s * u * r"
      by (simp add: algebra_simps)
    also have "\<dots> = u * u - s * u * r + r * r"
      unfolding s2 by simp
    finally show ?thesis .
  qed
  have fc: "fst c = u / 2" "snd c = s * u / 2"
    by (simp_all add: c_def u_def s_def)
  have r2: "A / 4 - Re' / 2 = r / 2" by (simp add: r_def)
  from key eq have t: "u * u - s * u * r + r * r = (Re' + Ri) * (Re' + Ri)" by simp
  show "(fst c - 0)\<^sup>2 + (snd c - (A / 2 - Re'))\<^sup>2 = (Re' + Ri)\<^sup>2"
    unfolding fc power2_eq_square r_def [symmetric] using a t by simp
  show "(fst c - sqrt 3 * (A / 2 - Re') / 2)\<^sup>2 + (snd c - (A / 4 - Re' / 2))\<^sup>2 = (Re' + Ri)\<^sup>2"
    unfolding fc power2_eq_square r2 r_def [symmetric] s_def [symmetric] using b t by simp
qed

end
